theory Spec2Isabelle
  imports Complex_Main
begin

section \<open>Data model\<close>

text \<open>
  The program (\<^verbatim>\<open>src/main.py\<close>) works on three pandas tables read from CSV files.
  A table is modelled as the list of its rows, one record per row, with one field per
  column the code reads. Numeric columns hold floating-point numbers (binary64). A
  floating-point number is modelled as the real number it denotes, and the rounding of
  the format as a function \<open>rnd\<close> on the reals, a parameter of the model: a decimal
  literal denotes the rounding of its value, an addition, subtraction or multiplication
  returns the rounding of the exact result, and copying, negating and comparing are
  exact. Infinities and overflow are not modelled, and a missing value of a measure
  column (pandas' NaN) is a value of its own. The columns the code requires are fields of
  the row records, so a table that lacks one of them (on which pandas raises
  \<^verbatim>\<open>KeyError\<close>) is outside the model; the one column the code tests for,
  \<^verbatim>\<open>Deviation Ind\<close>, may be absent. A UWI is a string.
\<close>

text \<open>
  A cell of the optional \<^verbatim>\<open>Deviation Ind\<close> column: a string, or the missing marker NaN
  that \<^verbatim>\<open>read_csv\<close> puts in an empty cell.
\<close>

datatype cell = Str string | NaN_cell

text \<open>A cell of a measure column (\<^verbatim>\<open>Oil M3\<close>, \<^verbatim>\<open>Water M3\<close>, ...).\<close>

datatype num_cell = NaN | Num real

record well_row =
  UWI :: string
  Longitude_NAD_83 :: real
  Latitude_NAD_83 :: real
  Deviation_Ind :: cell

text \<open>
  The well list. \<open>has_Deviation_Ind\<close> is \<^verbatim>\<open>"Deviation Ind" in df.columns\<close>; the field
  \<open>Deviation_Ind\<close> of a row is read only when the column is present.
\<close>

record welllist_df =
  has_Deviation_Ind :: bool
  wl_rows :: "well_row list"

record prod_row =
  prod_UWI :: string
  prod_Date :: string
  Oil_M3 :: num_cell
  Water_M3 :: num_cell
  Gas_E3M3 :: num_cell

record inj_row =
  inj_UWI :: string
  inj_Date :: string
  Water_Inj_M3 :: num_cell

text \<open>A row of the table \<^verbatim>\<open>prepare_well_data\<close> returns: the input columns and the five derived ones.\<close>

record prepared_row = well_row +
  Well_Type :: string
  Deviation_Type :: string
  Well_ID :: int
  plot_lon :: real
  plot_lat :: real

section \<open>Python and pandas primitives\<close>

text \<open>
  A string is a list of characters, a character being a code point below 256; text with
  other code points is outside the model. \<open>isspace\<close> holds for the characters that
  Python's \<^verbatim>\<open>str.strip()\<close> removes: the code points 9 to 13, 28 to 32, 133 (U+0085, next
  line) and 160 (U+00A0, no-break space). \<open>upper\<close> maps \<^verbatim>\<open>a\<close>..\<^verbatim>\<open>z\<close> to \<^verbatim>\<open>A\<close>..\<^verbatim>\<open>Z\<close> and
  leaves every other character alone. Python's \<^verbatim>\<open>str.upper()\<close> also changes some
  characters from 181 on (\<^verbatim>\<open>U+00E0\<close> to \<^verbatim>\<open>U+00C0\<close>, \<^verbatim>\<open>U+00DF\<close> to \<^verbatim>\<open>SS\<close>, ...), none of
  them to a string that starts with \<^verbatim>\<open>H\<close>: the only test the code makes of the
  upper-cased string, whether it starts with \<^verbatim>\<open>H\<close>, has the same answer.
\<close>

definition isspace :: "char \<Rightarrow> bool" where
  "isspace c =
     (let n = (of_char c :: nat)
      in (9 \<le> n \<and> n \<le> 13) \<or> (28 \<le> n \<and> n \<le> 32) \<or> n = 133 \<or> n = 160)"

definition strip :: "string \<Rightarrow> string" where
  "strip s = rev (dropWhile isspace (rev (dropWhile isspace s)))"

definition upper_char :: "char \<Rightarrow> char" where
  "upper_char c = (let n = (of_char c :: nat) in if 97 \<le> n \<and> n \<le> 122 then char_of (n - 32) else c)"

definition upper :: "string \<Rightarrow> string" where
  "upper s = map upper_char s"

definition startswith :: "string \<Rightarrow> string \<Rightarrow> bool" where
  "startswith s p = (take (length p) s = p)"

text \<open>\<^verbatim>\<open>str(x)\<close> of a cell: the string itself, and \<^verbatim>\<open>"nan"\<close> for the missing marker.\<close>

fun py_str :: "cell \<Rightarrow> string" where
  "py_str (Str s) = s"
| "py_str NaN_cell = ''nan''"

text \<open>\<^verbatim>\<open>col.isin(values)\<close>: the boolean mask of the cells that occur among \<open>values\<close>.\<close>

definition isin :: "'a list \<Rightarrow> 'a list \<Rightarrow> bool list" where
  "isin col vals = map (\<lambda>v. v \<in> set vals) col"

text \<open>\<^verbatim>\<open>df.loc[mask, c] = v\<close>: the column with \<open>v\<close> written where the mask holds.\<close>

definition loc_set :: "bool list \<Rightarrow> 'a \<Rightarrow> 'a list \<Rightarrow> 'a list" where
  "loc_set msk v col = map (\<lambda>(m, old). if m then v else old) (zip msk col)"

text \<open>
  \<^verbatim>\<open>df.duplicated(subset=..., keep=False)\<close>: the mask of the rows whose key occurs more
  than once in the table (with \<^verbatim>\<open>keep=False\<close> every occurrence is marked).
\<close>

definition duplicated_keep_False :: "'a list \<Rightarrow> bool list" where
  "duplicated_keep_False keys = map (\<lambda>k. 1 < count_list keys k) keys"

text \<open>\<^verbatim>\<open>mask.sum()\<close>: the number of rows the mask selects.\<close>

definition mask_sum :: "bool list \<Rightarrow> nat" where
  "mask_sum msk = length (filter (\<lambda>m. m) msk)"

text \<open>The rounding of the floating-point format (see the data model).\<close>

type_synonym rounding = "real \<Rightarrow> real"

text \<open>
  The random generator is a stream of samples of the unit interval \<open>[0, 1)\<close>, passed in
  explicitly. \<^verbatim>\<open>np.random.uniform(low, high, size=n)\<close> takes the next \<open>n\<close> samples \<open>u\<close>,
  returns \<open>low + (high - low) * u\<close>, computed in floating point, for each, and leaves
  the rest of the stream.
\<close>

type_synonym rng = "nat \<Rightarrow> real"

definition uniform_draw :: "rounding \<Rightarrow> real \<Rightarrow> real \<Rightarrow> real \<Rightarrow> real" where
  "uniform_draw rnd low high u = rnd (low + rnd (rnd (high - low) * u))"

definition np_random_uniform :: "rounding \<Rightarrow> real \<Rightarrow> real \<Rightarrow> nat \<Rightarrow> rng \<Rightarrow> real list \<times> rng" where
  "np_random_uniform rnd low high n g =
     (map (\<lambda>k. uniform_draw rnd low high (g k)) [0..<n], (\<lambda>k. g (k + n)))"

text \<open>
  \<^verbatim>\<open>df.loc[mask, c] += values\<close>: the selected cells, in row order, each get the next of
  \<open>values\<close> added, in floating point. pandas requires as many values as selected rows; the caller draws
  exactly \<^verbatim>\<open>mask.sum()\<close> of them, so the case of too few values (where the model leaves
  the cell as it is) is never met.
\<close>

fun loc_add :: "rounding \<Rightarrow> bool list \<Rightarrow> real list \<Rightarrow> real list \<Rightarrow> real list" where
  "loc_add rnd (True # msk) (c # col) (v # vals) = rnd (c + v) # loc_add rnd msk col vals"
| "loc_add rnd (True # msk) (c # col) [] = c # loc_add rnd msk col []"
| "loc_add rnd (False # msk) (c # col) vals = c # loc_add rnd msk col vals"
| "loc_add rnd [] col vals = col"
| "loc_add rnd msk [] vals = []"

section \<open>The well classifier: \<^verbatim>\<open>prepare_well_data\<close>\<close>

text \<open>The lambda applied to each \<^verbatim>\<open>Deviation Ind\<close> cell.\<close>

definition deviation_of :: "cell \<Rightarrow> string" where
  "deviation_of x = (if startswith (upper (strip (py_str x))) ''H'' then ''Horizontal'' else ''Vertical'')"

text \<open>Putting the derived columns beside the input rows.\<close>

definition with_columns ::
  "well_row list \<Rightarrow> string list \<Rightarrow> string list \<Rightarrow> int list \<Rightarrow> real list \<Rightarrow> real list \<Rightarrow> prepared_row list" where
  "with_columns df wt dt ids lons lats =
     map (\<lambda>(r, t, d, i, lo, la).
            \<lparr>UWI = UWI r, Longitude_NAD_83 = Longitude_NAD_83 r, Latitude_NAD_83 = Latitude_NAD_83 r,
             Deviation_Ind = Deviation_Ind r,
             Well_Type = t, Deviation_Type = d, Well_ID = i, plot_lon = lo, plot_lat = la\<rparr>)
         (zip df (zip wt (zip dt (zip ids (zip lons lats)))))"

text \<open>
  The function, with the rounding \<open>rnd\<close> of the floating-point format and the generator
  \<open>g\<close> as explicit parameters. The literal \<^verbatim>\<open>0.0003\<close> is the number \<open>rnd (3 / 10000)\<close>.
\<close>

definition prepare_well_data ::
  "rounding \<Rightarrow> welllist_df \<Rightarrow> prod_row list \<Rightarrow> inj_row list \<Rightarrow> bool \<Rightarrow> rng \<Rightarrow> prepared_row list" where
  "prepare_well_data rnd welllist prod_df inj_df include_unknown g =
    (let df = wl_rows welllist;
         well_type0 = replicate (length df) ''Unknown'';
         well_type1 = loc_set (isin (map UWI df) (map prod_UWI prod_df)) ''Production'' well_type0;
         well_type2 = loc_set (isin (map UWI df) (map inj_UWI inj_df)) ''Injection'' well_type1;
         deviation_type =
           (if has_Deviation_Ind welllist then map (\<lambda>r. deviation_of (Deviation_Ind r)) df
            else replicate (length df) ''Unknown'');
         well_id = map int [1..<length df + 1];
         plot_lon0 = map Longitude_NAD_83 df;
         plot_lat0 = map Latitude_NAD_83 df;
         dup_mask = duplicated_keep_False (zip plot_lon0 plot_lat0);
         (lon_draws, g1) =
           np_random_uniform rnd (- rnd (3 / 10000)) (rnd (3 / 10000)) (mask_sum dup_mask) g;
         plot_lon1 = loc_add rnd dup_mask plot_lon0 lon_draws;
         (lat_draws, g2) =
           np_random_uniform rnd (- rnd (3 / 10000)) (rnd (3 / 10000)) (mask_sum dup_mask) g1;
         plot_lat1 = loc_add rnd dup_mask plot_lat0 lat_draws;
         out = with_columns df well_type2 deviation_type well_id plot_lon1 plot_lat1
     in if \<not> include_unknown then filter (\<lambda>r. Well_Type r \<noteq> ''Unknown'') out else out)"

section \<open>Charts\<close>

text \<open>
  A plotly figure is the list of its traces, in the order they were added, and the layout
  attributes the builders set. An argument a builder does not pass is \<open>None\<close>.
  A parsed date is a time stamp; \<^verbatim>\<open>pd.to_datetime(col, errors="coerce")\<close> is the
  parser \<open>to_datetime\<close> (a parameter of every builder) applied to each cell, with
  \<open>None\<close> for a value that does not parse (pandas' NaT).
\<close>

type_synonym datetime = int

datatype trace_kind = Bar | Scatter

record trace =
  trace_kind :: trace_kind
  trace_x :: "datetime option list"
  trace_y :: "num_cell list"
  trace_name :: string
  trace_yaxis :: "string option"
  trace_mode :: "string option"
  trace_line_color :: "string option"
  trace_marker_color :: "string option"
  trace_opacity :: "real option"

record layout =
  layout_title :: "string option"
  layout_xaxis_title :: "string option"
  layout_yaxis_title :: "string option"
  layout_yaxis_range :: "(num_cell \<times> num_cell) option"
  layout_yaxis2_title :: "string option"
  layout_yaxis2_overlaying :: "string option"
  layout_yaxis2_side :: "string option"
  layout_yaxis2_range :: "(num_cell \<times> num_cell) option"
  layout_barmode :: "string option"

record figure =
  fig_data :: "trace list"
  fig_layout :: layout

definition go_Figure :: figure where
  "go_Figure =
     \<lparr>fig_data = [],
      fig_layout = \<lparr>layout_title = None, layout_xaxis_title = None, layout_yaxis_title = None,
        layout_yaxis_range = None, layout_yaxis2_title = None, layout_yaxis2_overlaying = None,
        layout_yaxis2_side = None, layout_yaxis2_range = None, layout_barmode = None\<rparr>\<rparr>"

definition add_trace :: "figure \<Rightarrow> trace \<Rightarrow> figure" where
  "add_trace fig t = fig\<lparr>fig_data := fig_data fig @ [t]\<rparr>"

text \<open>\<^verbatim>\<open>go.Bar(x=, y=, name=, yaxis=, marker=dict(color=), opacity=)\<close>.\<close>

definition go_Bar ::
  "datetime option list \<Rightarrow> num_cell list \<Rightarrow> string \<Rightarrow> string option \<Rightarrow> string option \<Rightarrow> real option \<Rightarrow> trace" where
  "go_Bar xs ys nm yaxis marker_color opacity =
     \<lparr>trace_kind = Bar, trace_x = xs, trace_y = ys, trace_name = nm, trace_yaxis = yaxis,
      trace_mode = None, trace_line_color = None, trace_marker_color = marker_color,
      trace_opacity = opacity\<rparr>"

text \<open>\<^verbatim>\<open>go.Scatter(x=, y=, name=, mode=, yaxis=, line=dict(color=))\<close>.\<close>

definition go_Scatter ::
  "datetime option list \<Rightarrow> num_cell list \<Rightarrow> string \<Rightarrow> string option \<Rightarrow> string option \<Rightarrow> string option \<Rightarrow> trace" where
  "go_Scatter xs ys nm mode yaxis line_color =
     \<lparr>trace_kind = Scatter, trace_x = xs, trace_y = ys, trace_name = nm, trace_yaxis = yaxis,
      trace_mode = mode, trace_line_color = line_color, trace_marker_color = None,
      trace_opacity = None\<rparr>"

text \<open>
  \<^verbatim>\<open>fig.update_layout(title=, xaxis=dict(title=), yaxis=dict(title=, range=),
  yaxis2=dict(title=, overlaying=, side=, range=), barmode=)\<close>: the attributes given are
  set, \<open>barmode\<close> only when it is passed.
\<close>

definition update_layout ::
  "figure \<Rightarrow> string \<Rightarrow> string \<Rightarrow> string \<Rightarrow> num_cell \<times> num_cell \<Rightarrow>
   string \<Rightarrow> string \<Rightarrow> string \<Rightarrow> num_cell \<times> num_cell \<Rightarrow> string option \<Rightarrow> figure" where
  "update_layout fig title xtitle ytitle yrange y2title y2overlaying y2side y2range barmode =
     fig\<lparr>fig_layout := (fig_layout fig)
       \<lparr>layout_title := Some title, layout_xaxis_title := Some xtitle,
        layout_yaxis_title := Some ytitle, layout_yaxis_range := Some yrange,
        layout_yaxis2_title := Some y2title, layout_yaxis2_overlaying := Some y2overlaying,
        layout_yaxis2_side := Some y2side, layout_yaxis2_range := Some y2range,
        layout_barmode := (case barmode of None \<Rightarrow> layout_barmode (fig_layout fig) | Some b \<Rightarrow> Some b)\<rparr>\<rparr>"

text \<open>\<^verbatim>\<open>df[mask]\<close>: the rows the mask selects; \<^verbatim>\<open>col == v\<close>: the mask of the cells equal to \<open>v\<close>.\<close>

definition df_where :: "bool list \<Rightarrow> 'r list \<Rightarrow> 'r list" where
  "df_where msk df = map snd (filter fst (zip msk df))"

definition eq_mask :: "'a list \<Rightarrow> 'a \<Rightarrow> bool list" where
  "eq_mask col v = map (\<lambda>c. c = v) col"

text \<open>
  \<^verbatim>\<open>Series.max()\<close> skips the missing values and is NaN when nothing is left.
  Python's \<^verbatim>\<open>max(a, b)\<close> keeps \<open>a\<close> unless \<open>b > a\<close>, and every comparison with NaN is false.
\<close>

fun dropna :: "num_cell list \<Rightarrow> real list" where
  "dropna [] = []"
| "dropna (NaN # col) = dropna col"
| "dropna (Num v # col) = v # dropna col"

definition series_max :: "num_cell list \<Rightarrow> num_cell" where
  "series_max col = (case dropna col of [] \<Rightarrow> NaN | v # vs \<Rightarrow> Num (fold max vs v))"

fun py_gt :: "num_cell \<Rightarrow> num_cell \<Rightarrow> bool" where
  "py_gt (Num a) (Num b) = (a > b)"
| "py_gt _ _ = False"

definition py_max :: "num_cell \<Rightarrow> num_cell \<Rightarrow> num_cell" where
  "py_max a b = (if py_gt b a then b else a)"

definition plot_water_inj_prod ::
  "(string \<Rightarrow> datetime option) \<Rightarrow> prod_row list \<Rightarrow> inj_row list \<Rightarrow> string list \<Rightarrow> string list \<Rightarrow> figure" where
  "plot_water_inj_prod to_datetime prod_df inj_df prod_wells inj_wells =
    (let fig = go_Figure;
         fig = foldl (\<lambda>fig well.
                 let data = df_where (eq_mask (map prod_UWI prod_df) well) prod_df
                 in add_trace fig (go_Bar (map to_datetime (map prod_Date data)) (map Water_M3 data)
                      (''Water Production from well '' @ well) (Some ''y2'') None None))
               fig prod_wells;
         fig = foldl (\<lambda>fig well.
                 let data = df_where (eq_mask (map inj_UWI inj_df) well) inj_df
                 in add_trace fig (go_Scatter (map to_datetime (map inj_Date data)) (map Water_Inj_M3 data)
                      (''Water Injection into Well '' @ well) (Some ''lines+markers'') None None))
               fig inj_wells;
         max_val = Num 0;
         max_val = (if prod_wells \<noteq> []
                    then py_max max_val
                      (series_max (map Water_M3 (df_where (isin (map prod_UWI prod_df) prod_wells) prod_df)))
                    else max_val);
         max_val = (if inj_wells \<noteq> []
                    then py_max max_val
                      (series_max (map Water_Inj_M3 (df_where (isin (map inj_UWI inj_df) inj_wells) inj_df)))
                    else max_val)
     in update_layout fig ''Water Injection vs Water Production History'' ''Date (month)''
          ''Water Injection M3'' (Num 0, max_val)
          ''Water Production M3'' ''y'' ''right'' (Num 0, max_val) (Some ''overlay''))"

definition plot_oil_inj_prod ::
  "(string \<Rightarrow> datetime option) \<Rightarrow> prod_row list \<Rightarrow> inj_row list \<Rightarrow> string list \<Rightarrow> string list \<Rightarrow> figure" where
  "plot_oil_inj_prod to_datetime prod_df inj_df prod_wells inj_wells =
    (let fig = go_Figure;
         fig = foldl (\<lambda>fig (i, well).
                 let data = df_where (eq_mask (map prod_UWI prod_df) well) prod_df;
                     oil_color = (if i = 0 then Some ''brown'' else None)
                 in add_trace fig (go_Scatter (map to_datetime (map prod_Date data)) (map Oil_M3 data)
                      (''Oil Production from well '' @ well) (Some ''lines+markers'') (Some ''y2'') oil_color))
               fig (enumerate 0 prod_wells);
         fig = foldl (\<lambda>fig (j, well).
                 let data = df_where (eq_mask (map inj_UWI inj_df) well) inj_df;
                     inj_color = (if j = 0 then Some ''blue'' else None)
                 in add_trace fig (go_Scatter (map to_datetime (map inj_Date data)) (map Water_Inj_M3 data)
                      (''Water Injection into Well '' @ well) (Some ''lines+markers'') None inj_color))
               fig (enumerate 0 inj_wells);
         max_val = Num 0;
         max_val = (if prod_wells \<noteq> []
                    then py_max max_val
                      (series_max (map Oil_M3 (df_where (isin (map prod_UWI prod_df) prod_wells) prod_df)))
                    else max_val);
         max_val = (if inj_wells \<noteq> []
                    then py_max max_val
                      (series_max (map Water_Inj_M3 (df_where (isin (map inj_UWI inj_df) inj_wells) inj_df)))
                    else max_val)
     in update_layout fig ''Water Injection vs Oil Production History'' ''Date (month)''
          ''Water Injection M3'' (Num 0, max_val)
          ''Oil Production M3'' ''y'' ''right'' (Num 0, max_val) None)"

definition plot_gas_inj_prod ::
  "(string \<Rightarrow> datetime option) \<Rightarrow> prod_row list \<Rightarrow> inj_row list \<Rightarrow> string list \<Rightarrow> string list \<Rightarrow> figure" where
  "plot_gas_inj_prod to_datetime prod_df inj_df prod_wells inj_wells =
    (let fig = go_Figure;
         fig = foldl (\<lambda>fig (i, well).
                 let data = df_where (eq_mask (map prod_UWI prod_df) well) prod_df;
                     gas_color = (if i = 0 then Some ''green'' else None)
                 in add_trace fig (go_Bar (map to_datetime (map prod_Date data)) (map Gas_E3M3 data)
                      (''Gas Production from well '' @ well) (Some ''y2'') gas_color None))
               fig (enumerate 0 prod_wells);
         fig = foldl (\<lambda>fig well.
                 let data = df_where (eq_mask (map inj_UWI inj_df) well) inj_df
                 in add_trace fig (go_Scatter (map to_datetime (map inj_Date data)) (map Water_Inj_M3 data)
                      (''Water Injection into Well '' @ well) (Some ''lines+markers'') None None))
               fig inj_wells;
         max_val = Num 0;
         max_val = (if prod_wells \<noteq> []
                    then py_max max_val
                      (series_max (map Gas_E3M3 (df_where (isin (map prod_UWI prod_df) prod_wells) prod_df)))
                    else max_val);
         max_val = (if inj_wells \<noteq> []
                    then py_max max_val
                      (series_max (map Water_Inj_M3 (df_where (isin (map inj_UWI inj_df) inj_wells) inj_df)))
                    else max_val)
     in update_layout fig ''Water Injection vs Gas Production History'' ''Date (month)''
          ''Water Injection M3'' (Num 0, max_val)
          ''Gas Production M3'' ''y'' ''right'' (Num 0, max_val) (Some ''overlay''))"

definition plot_oil_water_prod ::
  "(string \<Rightarrow> datetime option) \<Rightarrow> prod_row list \<Rightarrow> string list \<Rightarrow> figure" where
  "plot_oil_water_prod to_datetime prod_df prod_wells =
    (let fig = go_Figure;
         fig = foldl (\<lambda>fig well.
                 let data = df_where (eq_mask (map prod_UWI prod_df) well) prod_df;
                     oil_color = (if length prod_wells = 1 then Some ''brown'' else None);
                     fig = add_trace fig (go_Scatter (map to_datetime (map prod_Date data)) (map Oil_M3 data)
                             (''Oil Production '' @ well) (Some ''lines+markers'') (Some ''y1'') oil_color)
                 in add_trace fig (go_Bar (map to_datetime (map prod_Date data)) (map Water_M3 data)
                      (''Water Production '' @ well) (Some ''y2'') None (Some (1 / 2))))
               fig prod_wells;
         max_val = Num 0;
         max_val = (if prod_wells \<noteq> []
                    then py_max
                      (series_max (map Oil_M3 (df_where (isin (map prod_UWI prod_df) prod_wells) prod_df)))
                      (series_max (map Water_M3 (df_where (isin (map prod_UWI prod_df) prod_wells) prod_df)))
                    else max_val)
     in update_layout fig ''Oil vs Water Production History'' ''Date (month)''
          ''Oil Production M3'' (Num 0, max_val)
          ''Water Production M3'' ''y'' ''right'' (Num 0, max_val) (Some ''overlay''))"

definition plot_gas_water_prod ::
  "(string \<Rightarrow> datetime option) \<Rightarrow> prod_row list \<Rightarrow> string list \<Rightarrow> figure" where
  "plot_gas_water_prod to_datetime prod_df prod_wells =
    (let fig = go_Figure;
         fig = foldl (\<lambda>fig (i, well).
                 let data = df_where (eq_mask (map prod_UWI prod_df) well) prod_df;
                     gas_color = (if i = 0 then Some ''green'' else None);
                     fig = add_trace fig (go_Scatter (map to_datetime (map prod_Date data)) (map Gas_E3M3 data)
                             (''Gas Production '' @ well) (Some ''lines+markers'') (Some ''y1'') gas_color)
                 in add_trace fig (go_Bar (map to_datetime (map prod_Date data)) (map Water_M3 data)
                      (''Water Production '' @ well) (Some ''y2'') None (Some (1 / 2))))
               fig (enumerate 0 prod_wells);
         max_val = Num 0;
         max_val = (if prod_wells \<noteq> []
                    then py_max
                      (series_max (map Gas_E3M3 (df_where (isin (map prod_UWI prod_df) prod_wells) prod_df)))
                      (series_max (map Water_M3 (df_where (isin (map prod_UWI prod_df) prod_wells) prod_df)))
                    else max_val)
     in update_layout fig ''Gas vs Water Production History'' ''Date (month)''
          ''Gas Production M3'' (Num 0, max_val)
          ''Water Production M3'' ''y'' ''right'' (Num 0, max_val) (Some ''overlay''))"

text \<open>
  The values the shared scale is computed from: the values present (not missing) in a
  column of the rows of the selected production wells, and in the \<^verbatim>\<open>Water Inj M3\<close> column
  of the rows of the selected injection wells.
\<close>

definition prod_series :: "(prod_row \<Rightarrow> num_cell) \<Rightarrow> prod_row list \<Rightarrow> string list \<Rightarrow> real list" where
  "prod_series col prod_df prod_wells = dropna (map col (filter (\<lambda>r. prod_UWI r \<in> set prod_wells) prod_df))"

definition inj_series :: "inj_row list \<Rightarrow> string list \<Rightarrow> real list" where
  "inj_series inj_df inj_wells = dropna (map Water_Inj_M3 (filter (\<lambda>r. inj_UWI r \<in> set inj_wells) inj_df))"

section \<open>Example inputs\<close>

text \<open>
  A well list of four wells, two of them at the same coordinates, with production records
  for wells A and C and injection records for wells A and E (the latter with no volume);
  a well list of two wells at the same coordinates; two generators; and a date parser.
\<close>

definition ex_welllist :: welllist_df where
  "ex_welllist =
     \<lparr>has_Deviation_Ind = True,
      wl_rows =
        [\<lparr>UWI = ''A'', Longitude_NAD_83 = - 80, Latitude_NAD_83 = 53, Deviation_Ind = Str '' h ''\<rparr>,
         \<lparr>UWI = ''B'', Longitude_NAD_83 = - 80, Latitude_NAD_83 = 53, Deviation_Ind = NaN_cell\<rparr>,
         \<lparr>UWI = ''C'', Longitude_NAD_83 = - 81, Latitude_NAD_83 = 53, Deviation_Ind = Str ''V''\<rparr>,
         \<lparr>UWI = ''D'', Longitude_NAD_83 = - 82, Latitude_NAD_83 = 54, Deviation_Ind = Str ''Horiz''\<rparr>]\<rparr>"

definition ex_prod :: "prod_row list" where
  "ex_prod =
     [\<lparr>prod_UWI = ''A'', prod_Date = ''2020-01-01'', Oil_M3 = Num 10, Water_M3 = Num 4, Gas_E3M3 = NaN\<rparr>,
      \<lparr>prod_UWI = ''A'', prod_Date = ''2020-02-01'', Oil_M3 = Num 20, Water_M3 = Num 7, Gas_E3M3 = Num 1\<rparr>,
      \<lparr>prod_UWI = ''C'', prod_Date = ''bad date'', Oil_M3 = Num 5, Water_M3 = NaN, Gas_E3M3 = Num 2\<rparr>]"

definition ex_inj :: "inj_row list" where
  "ex_inj =
     [\<lparr>inj_UWI = ''A'', inj_Date = ''2020-01-01'', Water_Inj_M3 = Num 30\<rparr>,
      \<lparr>inj_UWI = ''E'', inj_Date = ''2020-01-01'', Water_Inj_M3 = NaN\<rparr>]"

text \<open>
  A rounding for the examples: to the nearest multiple of \<open>1 / 2 ^ 20\<close> (a fixed-point
  format; like that of binary64 it is monotone and keeps the numbers of the format).
\<close>

definition ex_round :: rounding where
  "ex_round x = of_int (round (x * 1048576)) / 1048576"

definition ex_rng :: rng where
  "ex_rng k = 1 / (real k + 3)"

definition ex_twins :: welllist_df where
  "ex_twins =
     \<lparr>has_Deviation_Ind = False,
      wl_rows =
        [\<lparr>UWI = ''T1'', Longitude_NAD_83 = - 80, Latitude_NAD_83 = 53, Deviation_Ind = NaN_cell\<rparr>,
         \<lparr>UWI = ''T2'', Longitude_NAD_83 = - 80, Latitude_NAD_83 = 53, Deviation_Ind = NaN_cell\<rparr>]\<rparr>"

definition ex_rng_mid :: rng where
  "ex_rng_mid k = (if even k then 1 / 2 else 1 / 4)"

definition ex_to_datetime :: "string \<Rightarrow> datetime option" where
  "ex_to_datetime s =
     (if s = ''2020-01-01'' then Some 18262 else if s = ''2020-02-01'' then Some 18293 else None)"

section \<open>Properties of the primitives\<close>

lemma length_loc_set: "length (loc_set msk v col) = min (length msk) (length col)"
  by (simp add: loc_set_def)

lemma nth_loc_set:
  "i < length msk \<Longrightarrow> i < length col \<Longrightarrow> loc_set msk v col ! i = (if msk ! i then v else col ! i)"
  by (simp add: loc_set_def)

lemma length_loc_add: "length (loc_add rnd msk col vals) = length col"
  by (induction rnd msk col vals rule: loc_add.induct) simp_all

lemma nth_loc_add:
  "length msk = length col \<Longrightarrow> i < length col \<Longrightarrow> mask_sum msk \<le> length vals \<Longrightarrow>
   loc_add rnd msk col vals ! i =
     (if msk ! i then rnd (col ! i + vals ! mask_sum (take i msk)) else col ! i)"
proof (induction rnd msk col vals arbitrary: i rule: loc_add.induct)
  case (1 rnd msk c col v vals)
  then show ?case by (cases i) (simp_all add: mask_sum_def)
next
  case (2 rnd msk c col)
  then show ?case by (simp add: mask_sum_def)
next
  case (3 rnd msk c col vals)
  then show ?case by (cases i) (simp_all add: mask_sum_def)
qed simp_all

lemma mask_sum_take_less:
  "i < length msk \<Longrightarrow> msk ! i \<Longrightarrow> mask_sum (take i msk) < mask_sum msk"
proof (induction msk arbitrary: i)
  case Nil
  then show ?case by simp
next
  case (Cons m msk)
  then show ?case by (cases i) (auto simp: mask_sum_def)
qed

lemma length_with_columns:
  "length wt = length df \<Longrightarrow> length dt = length df \<Longrightarrow> length ids = length df \<Longrightarrow>
   length lons = length df \<Longrightarrow> length lats = length df \<Longrightarrow>
   length (with_columns df wt dt ids lons lats) = length df"
  by (simp add: with_columns_def)

lemma nth_with_columns:
  "length wt = length df \<Longrightarrow> length dt = length df \<Longrightarrow> length ids = length df \<Longrightarrow>
   length lons = length df \<Longrightarrow> length lats = length df \<Longrightarrow> i < length df \<Longrightarrow>
   with_columns df wt dt ids lons lats ! i =
     \<lparr>UWI = UWI (df ! i), Longitude_NAD_83 = Longitude_NAD_83 (df ! i),
      Latitude_NAD_83 = Latitude_NAD_83 (df ! i), Deviation_Ind = Deviation_Ind (df ! i),
      Well_Type = wt ! i, Deviation_Type = dt ! i, Well_ID = ids ! i,
      plot_lon = lons ! i, plot_lat = lats ! i\<rparr>"
  by (simp add: with_columns_def)

section \<open>The prepared table, row by row\<close>

text \<open>
  With \<open>include_unknown\<close> the function returns the derived columns beside the input rows;
  without it, the same table with the Unknown rows removed. Row \<open>i\<close> of the former is
  given in closed form by \<open>nth_prepare_True\<close>.
\<close>

lemma prepare_include_unknown:
  "prepare_well_data rnd wl p j True g =
     with_columns (wl_rows wl)
       (loc_set (isin (map UWI (wl_rows wl)) (map inj_UWI j)) ''Injection''
          (loc_set (isin (map UWI (wl_rows wl)) (map prod_UWI p)) ''Production''
             (replicate (length (wl_rows wl)) ''Unknown'')))
       (if has_Deviation_Ind wl then map (\<lambda>r. deviation_of (Deviation_Ind r)) (wl_rows wl)
        else replicate (length (wl_rows wl)) ''Unknown'')
       (map int [1..<length (wl_rows wl) + 1])
       (loc_add rnd (duplicated_keep_False (zip (map Longitude_NAD_83 (wl_rows wl)) (map Latitude_NAD_83 (wl_rows wl))))
          (map Longitude_NAD_83 (wl_rows wl))
          (map (\<lambda>k. uniform_draw rnd (- rnd (3 / 10000)) (rnd (3 / 10000)) (g k))
             [0..<mask_sum (duplicated_keep_False (zip (map Longitude_NAD_83 (wl_rows wl)) (map Latitude_NAD_83 (wl_rows wl))))]))
       (loc_add rnd (duplicated_keep_False (zip (map Longitude_NAD_83 (wl_rows wl)) (map Latitude_NAD_83 (wl_rows wl))))
          (map Latitude_NAD_83 (wl_rows wl))
          (map (\<lambda>k. uniform_draw rnd (- rnd (3 / 10000)) (rnd (3 / 10000))
                   (g (k + mask_sum (duplicated_keep_False (zip (map Longitude_NAD_83 (wl_rows wl)) (map Latitude_NAD_83 (wl_rows wl)))))))
             [0..<mask_sum (duplicated_keep_False (zip (map Longitude_NAD_83 (wl_rows wl)) (map Latitude_NAD_83 (wl_rows wl))))]))"
  by (simp add: prepare_well_data_def np_random_uniform_def Let_def)

lemma prepare_drop_unknown:
  "prepare_well_data rnd wl p j False g =
     filter (\<lambda>r. Well_Type r \<noteq> ''Unknown'') (prepare_well_data rnd wl p j True g)"
  by (simp add: prepare_well_data_def np_random_uniform_def Let_def)


lemma length_range: "length (map int [1..<n + 1]) = n"
  by (simp del: upt_Suc)

lemma nth_range: "i < n \<Longrightarrow> map int [1..<n + 1] ! i = int i + 1"
  by (simp del: upt_Suc)

lemma length_duplicated: "length (duplicated_keep_False ks) = length ks"
  by (simp add: duplicated_keep_False_def)

lemma nth_loc_add_draws:
  assumes "length msk = length col" and "i < length col"
  shows "loc_add rnd msk col (map f [0..<mask_sum msk]) ! i =
           (if msk ! i then rnd (col ! i + f (mask_sum (take i msk))) else col ! i)"
proof (cases "msk ! i")
  case True
  then have "mask_sum (take i msk) < mask_sum msk"
    using mask_sum_take_less [of i msk] assms by simp
  then show ?thesis
    using assms True by (simp add: nth_loc_add)
next
  case False
  then show ?thesis
    using assms by (simp add: nth_loc_add)
qed

lemma length_prepare_True:
  "length (prepare_well_data rnd wl p j True g) = length (wl_rows wl)"
  unfolding prepare_include_unknown
  by (rule length_with_columns)
     (simp_all add: length_loc_set length_loc_add isin_def length_duplicated length_range del: upt_Suc)

lemma nth_prepare_True:
  assumes "i < length (wl_rows wl)"
  shows "prepare_well_data rnd wl p j True g ! i =
    \<lparr>UWI = UWI (wl_rows wl ! i), Longitude_NAD_83 = Longitude_NAD_83 (wl_rows wl ! i),
     Latitude_NAD_83 = Latitude_NAD_83 (wl_rows wl ! i), Deviation_Ind = Deviation_Ind (wl_rows wl ! i),
     Well_Type =
       (if UWI (wl_rows wl ! i) \<in> set (map inj_UWI j) then ''Injection''
        else if UWI (wl_rows wl ! i) \<in> set (map prod_UWI p) then ''Production'' else ''Unknown''),
     Deviation_Type =
       (if has_Deviation_Ind wl then deviation_of (Deviation_Ind (wl_rows wl ! i)) else ''Unknown''),
     Well_ID = int i + 1,
     plot_lon =
       (if duplicated_keep_False (zip (map Longitude_NAD_83 (wl_rows wl)) (map Latitude_NAD_83 (wl_rows wl))) ! i
        then rnd (Longitude_NAD_83 (wl_rows wl ! i) +
          uniform_draw rnd (- rnd (3 / 10000)) (rnd (3 / 10000))
            (g (mask_sum (take i (duplicated_keep_False (zip (map Longitude_NAD_83 (wl_rows wl)) (map Latitude_NAD_83 (wl_rows wl))))))))
        else Longitude_NAD_83 (wl_rows wl ! i)),
     plot_lat =
       (if duplicated_keep_False (zip (map Longitude_NAD_83 (wl_rows wl)) (map Latitude_NAD_83 (wl_rows wl))) ! i
        then rnd (Latitude_NAD_83 (wl_rows wl ! i) +
          uniform_draw rnd (- rnd (3 / 10000)) (rnd (3 / 10000))
            (g (mask_sum (take i (duplicated_keep_False (zip (map Longitude_NAD_83 (wl_rows wl)) (map Latitude_NAD_83 (wl_rows wl))))) +
                mask_sum (duplicated_keep_False (zip (map Longitude_NAD_83 (wl_rows wl)) (map Latitude_NAD_83 (wl_rows wl)))))))
        else Latitude_NAD_83 (wl_rows wl ! i))\<rparr>"
proof -
  let ?df = "wl_rows wl"
  let ?m = "duplicated_keep_False (zip (map Longitude_NAD_83 ?df) (map Latitude_NAD_83 ?df))"
  let ?wt = "loc_set (isin (map UWI ?df) (map inj_UWI j)) ''Injection''
          (loc_set (isin (map UWI ?df) (map prod_UWI p)) ''Production''
             (replicate (length ?df) ''Unknown''))"
  let ?dt = "if has_Deviation_Ind wl then map (\<lambda>r. deviation_of (Deviation_Ind r)) ?df
        else replicate (length ?df) ''Unknown''"
  let ?ids = "map int [1..<length ?df + 1]"
  let ?f1 = "\<lambda>k. uniform_draw rnd (- rnd (3 / 10000)) (rnd (3 / 10000)) (g k)"
  let ?f2 = "\<lambda>k. uniform_draw rnd (- rnd (3 / 10000)) (rnd (3 / 10000)) (g (k + mask_sum ?m))"
  let ?lons = "loc_add rnd ?m (map Longitude_NAD_83 ?df) (map ?f1 [0..<mask_sum ?m])"
  let ?lats = "loc_add rnd ?m (map Latitude_NAD_83 ?df) (map ?f2 [0..<mask_sum ?m])"
  have lm: "length ?m = length ?df"
    by (simp add: length_duplicated)
  have l1: "length ?wt = length ?df"
    by (simp add: length_loc_set isin_def)
  have l2: "length ?dt = length ?df"
    by simp
  have l3: "length ?ids = length ?df"
    by (rule length_range)
  have l4: "length ?lons = length ?df"
    by (simp add: length_loc_add)
  have l5: "length ?lats = length ?df"
    by (simp add: length_loc_add)
  have wt: "?wt ! i = (if UWI (?df ! i) \<in> set (map inj_UWI j) then ''Injection''
        else if UWI (?df ! i) \<in> set (map prod_UWI p) then ''Production'' else ''Unknown'')"
    using assms by (simp add: nth_loc_set length_loc_set isin_def)
  have dt: "?dt ! i = (if has_Deviation_Ind wl then deviation_of (Deviation_Ind (?df ! i)) else ''Unknown'')"
    using assms by simp
  have ids: "?ids ! i = int i + 1"
    using assms by (rule nth_range)
  have lons: "?lons ! i = (if ?m ! i then rnd (Longitude_NAD_83 (?df ! i) + ?f1 (mask_sum (take i ?m)))
                           else Longitude_NAD_83 (?df ! i))"
    using assms lm by (subst nth_loc_add_draws) simp_all
  have lats: "?lats ! i = (if ?m ! i then rnd (Latitude_NAD_83 (?df ! i) + ?f2 (mask_sum (take i ?m)))
                           else Latitude_NAD_83 (?df ! i))"
    using assms lm by (subst nth_loc_add_draws) simp_all
  show ?thesis
    unfolding prepare_include_unknown
    by (subst nth_with_columns [OF l1 l2 l3 l4 l5 assms]) (simp only: wt dt ids lons lats)
qed

section \<open>Rows of the prepared table\<close>

lemma prepare_row_index:
  assumes "r \<in> set (prepare_well_data rnd wl p j iu g)"
  shows "\<exists>i < length (wl_rows wl). r = prepare_well_data rnd wl p j True g ! i"
proof -
  have "r \<in> set (prepare_well_data rnd wl p j True g)"
    using assms by (cases iu) (simp_all add: prepare_drop_unknown)
  then show ?thesis
    by (metis in_set_conv_nth length_prepare_True)
qed

lemma prepare_row_kept:
  assumes "i < length (wl_rows wl)"
    and "iu \<or> Well_Type (prepare_well_data rnd wl p j True g ! i) \<noteq> ''Unknown''"
  shows "prepare_well_data rnd wl p j True g ! i \<in> set (prepare_well_data rnd wl p j iu g)"
proof -
  have "prepare_well_data rnd wl p j True g ! i \<in> set (prepare_well_data rnd wl p j True g)"
    using assms(1) by (simp add: length_prepare_True)
  then show ?thesis
    using assms(2) by (cases iu) (simp_all add: prepare_drop_unknown)
qed

lemma known_iff:
  assumes "i < length (wl_rows wl)"
  shows "(Well_Type (prepare_well_data rnd wl p j True g ! i) \<noteq> ''Unknown'') =
         (UWI (wl_rows wl ! i) \<in> set (map prod_UWI p) \<or> UWI (wl_rows wl ! i) \<in> set (map inj_UWI j))"
  unfolding nth_prepare_True [OF assms] by simp

lemma deviation_of_NaN: "deviation_of NaN_cell = ''Vertical''"
  by code_simp

lemma deviation_of_no_break_space:
  "deviation_of (Str [CHR 0xA0, CHR ''H'']) = ''Horizontal'' \<and>
   deviation_of (Str [CHR 0x85, CHR ''h'', CHR 0xA0]) = ''Horizontal''"
  by code_simp

lemma deviation_of_cases: "deviation_of x = ''Horizontal'' \<or> deviation_of x = ''Vertical''"
  by (simp add: deviation_of_def)

lemma nth_duplicated:
  "i < length ks \<Longrightarrow> duplicated_keep_False ks ! i = (1 < count_list ks (ks ! i))"
  by (simp add: duplicated_keep_False_def)

lemma dup_mask_nth:
  assumes "i < length (wl_rows wl)"
  shows "duplicated_keep_False (zip (map Longitude_NAD_83 (wl_rows wl)) (map Latitude_NAD_83 (wl_rows wl))) ! i =
         (1 < count_list (zip (map Longitude_NAD_83 (wl_rows wl)) (map Latitude_NAD_83 (wl_rows wl)))
                (Longitude_NAD_83 (wl_rows wl ! i), Latitude_NAD_83 (wl_rows wl ! i)))"
  using assms by (simp add: nth_duplicated)

text \<open>The prepared table of the example, with and without the Unknown wells.\<close>

lemma ex_deviations:
  "deviation_of (Str '' h '') = ''Horizontal''"
  "deviation_of NaN_cell = ''Vertical''"
  "deviation_of (Str ''V'') = ''Vertical''"
  "deviation_of (Str ''Horiz'') = ''Horizontal''"
  by code_simp+

lemma ex_prepared_all:
  "prepare_well_data ex_round ex_welllist ex_prod ex_inj True ex_rng =
     [\<lparr>UWI = ''A'', Longitude_NAD_83 = - 80, Latitude_NAD_83 = 53, Deviation_Ind = Str '' h '',
       Well_Type = ''Injection'', Deviation_Type = ''Horizontal'', Well_ID = 1,
       plot_lon = - (83886185 / 1048576), plot_lat = 55574339 / 1048576\<rparr>,
      \<lparr>UWI = ''B'', Longitude_NAD_83 = - 80, Latitude_NAD_83 = 53, Deviation_Ind = NaN_cell,
       Well_Type = ''Unknown'', Deviation_Type = ''Vertical'', Well_ID = 2,
       plot_lon = - (83886237 / 1048576), plot_lat = 27787159 / 524288\<rparr>,
      \<lparr>UWI = ''C'', Longitude_NAD_83 = - 81, Latitude_NAD_83 = 53, Deviation_Ind = Str ''V'',
       Well_Type = ''Production'', Deviation_Type = ''Vertical'', Well_ID = 3,
       plot_lon = - 81, plot_lat = 53\<rparr>,
      \<lparr>UWI = ''D'', Longitude_NAD_83 = - 82, Latitude_NAD_83 = 54, Deviation_Ind = Str ''Horiz'',
       Well_Type = ''Unknown'', Deviation_Type = ''Horizontal'', Well_ID = 4,
       plot_lon = - 82, plot_lat = 54\<rparr>]"
  unfolding prepare_include_unknown prepare_drop_unknown
  by (simp add: ex_welllist_def ex_prod_def ex_inj_def with_columns_def loc_set_def isin_def
        duplicated_keep_False_def mask_sum_def uniform_draw_def ex_round_def round_def ex_rng_def
        ex_deviations)

lemma ex_prepared_known:
  "prepare_well_data ex_round ex_welllist ex_prod ex_inj False ex_rng =
     [\<lparr>UWI = ''A'', Longitude_NAD_83 = - 80, Latitude_NAD_83 = 53, Deviation_Ind = Str '' h '',
       Well_Type = ''Injection'', Deviation_Type = ''Horizontal'', Well_ID = 1,
       plot_lon = - (83886185 / 1048576), plot_lat = 55574339 / 1048576\<rparr>,
      \<lparr>UWI = ''C'', Longitude_NAD_83 = - 81, Latitude_NAD_83 = 53, Deviation_Ind = Str ''V'',
       Well_Type = ''Production'', Deviation_Type = ''Vertical'', Well_ID = 3,
       plot_lon = - 81, plot_lat = 53\<rparr>]"
  unfolding prepare_include_unknown prepare_drop_unknown
  by (simp add: ex_welllist_def ex_prod_def ex_inj_def with_columns_def loc_set_def isin_def
        duplicated_keep_False_def mask_sum_def uniform_draw_def ex_round_def round_def ex_rng_def
        ex_deviations)

lemma ex_twins_prepared:
  "prepare_well_data ex_round ex_twins [] [] True ex_rng_mid =
     [\<lparr>UWI = ''T1'', Longitude_NAD_83 = - 80, Latitude_NAD_83 = 53, Deviation_Ind = NaN_cell,
       Well_Type = ''Unknown'', Deviation_Type = ''Unknown'', Well_ID = 1,
       plot_lon = - 80, plot_lat = 53\<rparr>,
      \<lparr>UWI = ''T2'', Longitude_NAD_83 = - 80, Latitude_NAD_83 = 53, Deviation_Ind = NaN_cell,
       Well_Type = ''Unknown'', Deviation_Type = ''Unknown'', Well_ID = 2,
       plot_lon = - (83886237 / 1048576), plot_lat = 55574371 / 1048576\<rparr>]"
  unfolding prepare_include_unknown
  by (simp add: ex_twins_def with_columns_def loc_set_def isin_def
        duplicated_keep_False_def mask_sum_def uniform_draw_def ex_round_def round_def ex_rng_mid_def)

section \<open>Well type\<close>

text \<open>
  C1. A well-list row whose UWI occurs both in the production table and in the injection
  table is classified \<^verbatim>\<open>Injection\<close>: the row derived from it (the one with its position as
  \<open>Well_ID\<close>) is in the returned table, whatever \<open>include_unknown\<close> is, with
  \<open>Well_Type = Injection\<close>, and so is every returned row with that UWI.
\<close>

theorem injection_wins:
  assumes "i < length (wl_rows wl)"
    and "UWI (wl_rows wl ! i) \<in> set (map prod_UWI p)"
    and "UWI (wl_rows wl ! i) \<in> set (map inj_UWI j)"
  shows "(\<exists>r \<in> set (prepare_well_data rnd wl p j iu g).
            Well_ID r = int i + 1 \<and> UWI r = UWI (wl_rows wl ! i) \<and> Well_Type r = ''Injection'') \<and>
         (\<forall>r \<in> set (prepare_well_data rnd wl p j iu g).
            UWI r = UWI (wl_rows wl ! i) \<longrightarrow> Well_Type r = ''Injection'')"
proof (intro conjI ballI impI)
  let ?r = "prepare_well_data rnd wl p j True g ! i"
  have t: "Well_Type ?r = ''Injection''"
    using assms by (simp add: nth_prepare_True)
  then have "?r \<in> set (prepare_well_data rnd wl p j iu g)"
    using assms(1) by (intro prepare_row_kept) simp_all
  moreover have "Well_ID ?r = int i + 1" "UWI ?r = UWI (wl_rows wl ! i)"
    using assms(1) by (simp_all add: nth_prepare_True)
  ultimately show "\<exists>r \<in> set (prepare_well_data rnd wl p j iu g).
            Well_ID r = int i + 1 \<and> UWI r = UWI (wl_rows wl ! i) \<and> Well_Type r = ''Injection''"
    using t by blast
next
  fix r
  assume r: "r \<in> set (prepare_well_data rnd wl p j iu g)" and u: "UWI r = UWI (wl_rows wl ! i)"
  from prepare_row_index [OF r] obtain k
    where k: "k < length (wl_rows wl)" and rk: "r = prepare_well_data rnd wl p j True g ! k"
    by blast
  have "UWI r = UWI (wl_rows wl ! k)"
    using k rk by (simp add: nth_prepare_True)
  then have "UWI (wl_rows wl ! k) \<in> set (map inj_UWI j)"
    using u assms(3) by simp
  then show "Well_Type r = ''Injection''"
    using k rk by (simp add: nth_prepare_True)
qed

text \<open>Well A of the example has production and injection records.\<close>

theorem injection_wins_witness:
  "Well_Type (prepare_well_data ex_round ex_welllist ex_prod ex_inj False ex_rng ! 0) = ''Injection''"
proof -
  have h1: "0 < length (wl_rows ex_welllist)"
    by (simp add: ex_welllist_def)
  have h2: "UWI (wl_rows ex_welllist ! 0) \<in> set (map prod_UWI ex_prod)"
    by (simp add: ex_welllist_def ex_prod_def)
  have h3: "UWI (wl_rows ex_welllist ! 0) \<in> set (map inj_UWI ex_inj)"
    by (simp add: ex_welllist_def ex_inj_def)
  have m: "prepare_well_data ex_round ex_welllist ex_prod ex_inj False ex_rng ! 0
             \<in> set (prepare_well_data ex_round ex_welllist ex_prod ex_inj False ex_rng)"
    by (simp add: ex_prepared_known)
  have u: "UWI (prepare_well_data ex_round ex_welllist ex_prod ex_inj False ex_rng ! 0) = UWI (wl_rows ex_welllist ! 0)"
    unfolding ex_prepared_known by (simp add: ex_welllist_def)
  from injection_wins [OF h1 h2 h3, where rnd = ex_round and iu = False and g = ex_rng] m u
  show ?thesis
    by blast
qed

section \<open>Well identifiers and the Unknown filter\<close>

text \<open>
  C2. With \<open>N\<close> rows in the well list, the \<open>Well_ID\<close> column of the table before the
  Unknown filter (the table returned with \<open>include_unknown\<close>) is \<open>1, ..., N\<close> in row order, and
  the table returned without the Unknown wells is that same table with the Unknown rows
  removed: the rows that stay keep the \<open>Well_ID\<close> they had, nothing is renumbered.
\<close>

theorem well_id_sequence:
  "map Well_ID (prepare_well_data rnd wl p j True g) = map int [1..<length (wl_rows wl) + 1] \<and>
   prepare_well_data rnd wl p j False g =
     filter (\<lambda>r. Well_Type r \<noteq> ''Unknown'') (prepare_well_data rnd wl p j True g)"
proof
  show "map Well_ID (prepare_well_data rnd wl p j True g) = map int [1..<length (wl_rows wl) + 1]"
  proof (rule nth_equalityI)
    show "length (map Well_ID (prepare_well_data rnd wl p j True g)) = length (map int [1..<length (wl_rows wl) + 1])"
      by (simp only: length_map length_prepare_True length_range [simplified length_map])
  next
    fix i
    assume "i < length (map Well_ID (prepare_well_data rnd wl p j True g))"
    then have i: "i < length (wl_rows wl)"
      by (simp add: length_prepare_True)
    then have "map Well_ID (prepare_well_data rnd wl p j True g) ! i = int i + 1"
      by (simp add: length_prepare_True nth_prepare_True)
    then show "map Well_ID (prepare_well_data rnd wl p j True g) ! i = map int [1..<length (wl_rows wl) + 1] ! i"
      using i by (simp only: nth_range)
  qed
next
  show "prepare_well_data rnd wl p j False g =
     filter (\<lambda>r. Well_Type r \<noteq> ''Unknown'') (prepare_well_data rnd wl p j True g)"
    by (rule prepare_drop_unknown)
qed

text \<open>
  C4. Without the Unknown wells, the returned table has as many rows as there are rows
  whose derived \<open>Well_Type\<close> is not \<^verbatim>\<open>Unknown\<close>, which is the number of well-list rows
  whose UWI occurs in the production or in the injection table.
\<close>

theorem drop_unknown_count:
  "length (prepare_well_data rnd wl p j False g) =
     length (filter (\<lambda>r. Well_Type r \<noteq> ''Unknown'') (prepare_well_data rnd wl p j True g)) \<and>
   length (prepare_well_data rnd wl p j False g) =
     length (filter (\<lambda>r. UWI r \<in> set (map prod_UWI p) \<or> UWI r \<in> set (map inj_UWI j)) (wl_rows wl))"
proof
  show a: "length (prepare_well_data rnd wl p j False g) =
     length (filter (\<lambda>r. Well_Type r \<noteq> ''Unknown'') (prepare_well_data rnd wl p j True g))"
    by (simp add: prepare_drop_unknown)
  have "{i. i < length (prepare_well_data rnd wl p j True g) \<and> Well_Type (prepare_well_data rnd wl p j True g ! i) \<noteq> ''Unknown''}
      = {i. i < length (wl_rows wl) \<and> (UWI (wl_rows wl ! i) \<in> set (map prod_UWI p) \<or> UWI (wl_rows wl ! i) \<in> set (map inj_UWI j))}"
    using known_iff [where wl = wl and rnd = rnd and p = p and j = j and g = g]
    by (auto simp: length_prepare_True)
  then show "length (prepare_well_data rnd wl p j False g) =
     length (filter (\<lambda>r. UWI r \<in> set (map prod_UWI p) \<or> UWI r \<in> set (map inj_UWI j)) (wl_rows wl))"
    unfolding a length_filter_conv_card by simp
qed

section \<open>Deviation type\<close>

text \<open>
  C3. Every row of the returned table carries the \<^verbatim>\<open>Deviation Ind\<close> cell of the well-list
  row it comes from. When the column is present, its \<open>Deviation_Type\<close> is \<^verbatim>\<open>Horizontal\<close>
  exactly when that cell, as a string, trimmed and upper-cased, starts with \<^verbatim>\<open>H\<close>, and
  \<^verbatim>\<open>Vertical\<close> otherwise; and it is \<^verbatim>\<open>Unknown\<close> exactly when the column is absent.
\<close>

theorem deviation_type_rule:
  assumes "r \<in> set (prepare_well_data rnd wl p j iu g)"
  shows "(has_Deviation_Ind wl \<longrightarrow>
            (Deviation_Type r = ''Horizontal'' \<longleftrightarrow>
               startswith (upper (strip (py_str (Deviation_Ind r)))) ''H'') \<and>
            (\<not> startswith (upper (strip (py_str (Deviation_Ind r)))) ''H'' \<longrightarrow>
               Deviation_Type r = ''Vertical'')) \<and>
         (Deviation_Type r = ''Unknown'' \<longleftrightarrow> \<not> has_Deviation_Ind wl)"
proof -
  from prepare_row_index [OF assms] obtain i
    where i: "i < length (wl_rows wl)" and r: "r = prepare_well_data rnd wl p j True g ! i"
    by blast
  have d: "Deviation_Type r =
             (if has_Deviation_Ind wl then deviation_of (Deviation_Ind r) else ''Unknown'')"
    unfolding r nth_prepare_True [OF i] by simp
  show ?thesis
    unfolding d by (simp add: deviation_of_def)
qed

text \<open>Well A of the example has the indicator \<^verbatim>\<open>" h "\<close>.\<close>

theorem deviation_type_rule_witness:
  "Deviation_Type (prepare_well_data ex_round ex_welllist ex_prod ex_inj True ex_rng ! 0) = ''Horizontal''"
proof -
  have m: "prepare_well_data ex_round ex_welllist ex_prod ex_inj True ex_rng ! 0
             \<in> set (prepare_well_data ex_round ex_welllist ex_prod ex_inj True ex_rng)"
    by (simp add: ex_prepared_all)
  have h: "has_Deviation_Ind ex_welllist"
    by (simp add: ex_welllist_def)
  have s: "startswith (upper (strip (py_str
             (Deviation_Ind (prepare_well_data ex_round ex_welllist ex_prod ex_inj True ex_rng ! 0))))) ''H''"
    unfolding ex_prepared_all by code_simp
  from deviation_type_rule [OF m] h s show ?thesis
    by blast
qed

text \<open>
  C10. When the \<^verbatim>\<open>Deviation Ind\<close> column is present, every returned row has
  \<open>Deviation_Type\<close> \<^verbatim>\<open>Horizontal\<close> or \<^verbatim>\<open>Vertical\<close>, never \<^verbatim>\<open>Unknown\<close>; a row whose cell is
  missing gets \<^verbatim>\<open>Vertical\<close>, since the missing marker is turned into the string \<^verbatim>\<open>nan\<close>.
\<close>

theorem deviation_never_unknown:
  assumes "has_Deviation_Ind wl" and "r \<in> set (prepare_well_data rnd wl p j iu g)"
  shows "(Deviation_Type r = ''Horizontal'' \<or> Deviation_Type r = ''Vertical'') \<and>
         Deviation_Type r \<noteq> ''Unknown'' \<and>
         (Deviation_Ind r = NaN_cell \<longrightarrow> Deviation_Type r = ''Vertical'')"
proof -
  from prepare_row_index [OF assms(2)] obtain i
    where i: "i < length (wl_rows wl)" and r: "r = prepare_well_data rnd wl p j True g ! i"
    by blast
  have d: "Deviation_Type r = deviation_of (Deviation_Ind r)"
    unfolding r nth_prepare_True [OF i] using assms(1) by simp
  have "deviation_of (Deviation_Ind r) \<noteq> ''Unknown''"
    using deviation_of_cases [of "Deviation_Ind r"] by auto
  then show ?thesis
    unfolding d using deviation_of_cases [of "Deviation_Ind r"] deviation_of_NaN by auto
qed

text \<open>Well B of the example has no indicator.\<close>

theorem deviation_never_unknown_witness:
  "Deviation_Type (prepare_well_data ex_round ex_welllist ex_prod ex_inj True ex_rng ! 1) = ''Vertical''"
proof -
  have h: "has_Deviation_Ind ex_welllist"
    by (simp add: ex_welllist_def)
  have m: "prepare_well_data ex_round ex_welllist ex_prod ex_inj True ex_rng ! 1
             \<in> set (prepare_well_data ex_round ex_welllist ex_prod ex_inj True ex_rng)"
    by (simp add: ex_prepared_all)
  have c: "Deviation_Ind (prepare_well_data ex_round ex_welllist ex_prod ex_inj True ex_rng ! 1) = NaN_cell"
    by (simp add: ex_prepared_all)
  from deviation_never_unknown [OF h m] c show ?thesis
    by blast
qed

section \<open>Display coordinates\<close>

text \<open>
  C6. A returned row whose coordinates are those of one well-list row only (no other row
  has both the same longitude and the same latitude) has its display coordinates equal
  to its source coordinates.
\<close>

theorem unique_coordinates_unchanged:
  assumes "r \<in> set (prepare_well_data rnd wl p j iu g)"
    and "count_list (zip (map Longitude_NAD_83 (wl_rows wl)) (map Latitude_NAD_83 (wl_rows wl)))
           (Longitude_NAD_83 r, Latitude_NAD_83 r) = 1"
  shows "plot_lon r = Longitude_NAD_83 r \<and> plot_lat r = Latitude_NAD_83 r"
proof -
  from prepare_row_index [OF assms(1)] obtain i
    where i: "i < length (wl_rows wl)" and r: "r = prepare_well_data rnd wl p j True g ! i"
    by blast
  have c: "Longitude_NAD_83 r = Longitude_NAD_83 (wl_rows wl ! i)"
          "Latitude_NAD_83 r = Latitude_NAD_83 (wl_rows wl ! i)"
    unfolding r nth_prepare_True [OF i] by simp_all
  have "\<not> duplicated_keep_False (zip (map Longitude_NAD_83 (wl_rows wl)) (map Latitude_NAD_83 (wl_rows wl))) ! i"
    unfolding dup_mask_nth [OF i] using assms(2) c by simp
  then show ?thesis
    unfolding r nth_prepare_True [OF i] by simp
qed

text \<open>Well C of the example is alone at its coordinates.\<close>

theorem unique_coordinates_unchanged_witness:
  "plot_lon (prepare_well_data ex_round ex_welllist ex_prod ex_inj False ex_rng ! 1) =
     Longitude_NAD_83 (prepare_well_data ex_round ex_welllist ex_prod ex_inj False ex_rng ! 1) \<and>
   plot_lat (prepare_well_data ex_round ex_welllist ex_prod ex_inj False ex_rng ! 1) =
     Latitude_NAD_83 (prepare_well_data ex_round ex_welllist ex_prod ex_inj False ex_rng ! 1)"
proof -
  have m: "prepare_well_data ex_round ex_welllist ex_prod ex_inj False ex_rng ! 1
             \<in> set (prepare_well_data ex_round ex_welllist ex_prod ex_inj False ex_rng)"
    by (simp add: ex_prepared_known)
  have c: "count_list (zip (map Longitude_NAD_83 (wl_rows ex_welllist)) (map Latitude_NAD_83 (wl_rows ex_welllist)))
             (Longitude_NAD_83 (prepare_well_data ex_round ex_welllist ex_prod ex_inj False ex_rng ! 1),
              Latitude_NAD_83 (prepare_well_data ex_round ex_welllist ex_prod ex_inj False ex_rng ! 1)) = 1"
    unfolding ex_prepared_known by (simp add: ex_welllist_def)
  show ?thesis
    by (rule unique_coordinates_unchanged [OF m c])
qed

lemma mask_sum_take_mono:
  assumes "i' < i" and "i \<le> length msk" and "msk ! i'"
  shows "mask_sum (take i' msk) < mask_sum (take i msk)"
proof -
  have "i' < length (take i msk)" using assms by simp
  moreover have "take i msk ! i'" using assms by simp
  ultimately have "mask_sum (take i' (take i msk)) < mask_sum (take i msk)"
    by (rule mask_sum_take_less)
  then show ?thesis using assms(1) by (simp add: min_def)
qed

text \<open>
  A draw between \<open>- c\<close> and \<open>c\<close> stays there under a monotone rounding that keeps \<open>0\<close>,
  \<open>c\<close>, \<open>- c\<close> and \<open>2 * c\<close>.
\<close>

lemma uniform_draw_bounds:
  assumes mono: "\<forall>x y. x \<le> y \<longrightarrow> rnd x \<le> rnd y"
    and zero: "rnd 0 = 0"
    and pos: "rnd c = c"
    and neg: "rnd (- c) = - c"
    and dbl: "rnd (c - - c) = 2 * c"
    and c: "0 \<le> c"
    and u: "0 \<le> u" "u < 1"
  shows "\<bar>uniform_draw rnd (- c) c u\<bar> \<le> c"
proof -
  let ?s = "rnd (2 * c * u)"
  have "0 \<le> 2 * c * u"
    using c u by simp
  then have "rnd 0 \<le> rnd (2 * c * u)"
    using mono by simp
  then have lo: "0 \<le> ?s"
    using zero by simp
  have "2 * c * u \<le> 2 * c * 1"
    using c u by (intro mult_left_mono) simp_all
  then have "rnd (2 * c * u) \<le> rnd (2 * c)"
    using mono by simp
  moreover have "rnd (2 * c) = 2 * c"
    using dbl by simp
  ultimately have hi: "?s \<le> 2 * c"
    by simp
  have "- c \<le> - c + ?s" "- c + ?s \<le> c"
    using lo hi by simp_all
  then have "rnd (- c) \<le> rnd (- c + ?s)" "rnd (- c + ?s) \<le> rnd c"
    using mono by simp_all
  then have "- c \<le> rnd (- c + ?s)" "rnd (- c + ?s) \<le> c"
    using pos neg by simp_all
  moreover have "uniform_draw rnd (- c) c u = rnd (- c + ?s)"
    using dbl by (simp add: uniform_draw_def)
  ultimately show ?thesis
    by (simp add: abs_le_iff)
qed

lemma rounded_sum_bounds:
  fixes rnd :: rounding
  assumes mono: "\<forall>x y. x \<le> y \<longrightarrow> rnd x \<le> rnd y" and "\<bar>a\<bar> \<le> c"
  shows "rnd (x - c) \<le> rnd (x + a) \<and> rnd (x + a) \<le> rnd (x + c)"
proof -
  have "x - c \<le> x + a" "x + a \<le> x + c"
    using assms(2) by linarith+
  then show ?thesis
    using mono by simp
qed

text \<open>
  C5, as amended. Every returned row of a duplicate-coordinate group (every member: none
  is kept in place as an anchor) has, on each axis, the floating-point sum of its source
  coordinate and of a draw of its own as display coordinate: the row with \<open>k\<close> group
  members before it in the well list takes the draw of sample \<open>k\<close> of the generator for
  the longitude and that of sample \<open>k + n\<close> for the latitude, \<open>n\<close> being the number of rows
  in duplicate groups, so that no sample serves twice. For a rounding that is monotone
  and keeps \<open>0\<close>, the number \<open>c\<close> of the literal \<^verbatim>\<open>0.0003\<close>, \<open>- c\<close> and \<open>2 * c\<close> (as that of
  binary64 does), and samples in \<open>[0, 1)\<close>, each draw has magnitude at most \<open>c\<close>, and the
  display coordinate lies between the roundings of the source coordinate minus \<open>c\<close> and
  plus \<open>c\<close>. Nothing says that it differs from the source coordinate, or from that of
  another member: the draw may be zero or too small to change the sum, and different
  draws may give the same sum.
\<close>

theorem duplicates_jittered:
  assumes "\<forall>x y. x \<le> y \<longrightarrow> rnd x \<le> rnd y"
    and "rnd 0 = 0"
    and "rnd (rnd (3 / 10000)) = rnd (3 / 10000)"
    and "rnd (- rnd (3 / 10000)) = - rnd (3 / 10000)"
    and "rnd (rnd (3 / 10000) - - rnd (3 / 10000)) = 2 * rnd (3 / 10000)"
    and "\<forall>k. 0 \<le> g k \<and> g k < 1"
    and "r \<in> set (prepare_well_data rnd wl p j iu g)"
    and "1 < count_list (zip (map Longitude_NAD_83 (wl_rows wl)) (map Latitude_NAD_83 (wl_rows wl)))
               (Longitude_NAD_83 r, Latitude_NAD_83 r)"
  shows "let m = duplicated_keep_False (zip (map Longitude_NAD_83 (wl_rows wl)) (map Latitude_NAD_83 (wl_rows wl)));
             n = mask_sum m;
             k = mask_sum (take (nat (Well_ID r - 1)) m);
             c = rnd (3 / 10000);
             a = uniform_draw rnd (- c) c (g k);
             b = uniform_draw rnd (- c) c (g (k + n))
         in k < n \<and> (\<forall>i < nat (Well_ID r - 1). m ! i \<longrightarrow> mask_sum (take i m) < k) \<and>
            plot_lon r = rnd (Longitude_NAD_83 r + a) \<and> plot_lat r = rnd (Latitude_NAD_83 r + b) \<and>
            \<bar>a\<bar> \<le> c \<and> \<bar>b\<bar> \<le> c \<and>
            rnd (Longitude_NAD_83 r - c) \<le> plot_lon r \<and> plot_lon r \<le> rnd (Longitude_NAD_83 r + c) \<and>
            rnd (Latitude_NAD_83 r - c) \<le> plot_lat r \<and> plot_lat r \<le> rnd (Latitude_NAD_83 r + c)"
proof -
  let ?m = "duplicated_keep_False (zip (map Longitude_NAD_83 (wl_rows wl)) (map Latitude_NAD_83 (wl_rows wl)))"
  let ?c = "rnd (3 / 10000)"
  let ?k = "mask_sum (take (nat (Well_ID r - 1)) ?m)"
  let ?a = "uniform_draw rnd (- ?c) ?c (g ?k)"
  let ?b = "uniform_draw rnd (- ?c) ?c (g (?k + mask_sum ?m))"
  from prepare_row_index [OF assms(7)] obtain i
    where i: "i < length (wl_rows wl)" and r: "r = prepare_well_data rnd wl p j True g ! i"
    by blast
  have id: "nat (Well_ID r - 1) = i"
    unfolding r nth_prepare_True [OF i] by simp
  have co: "Longitude_NAD_83 r = Longitude_NAD_83 (wl_rows wl ! i)"
           "Latitude_NAD_83 r = Latitude_NAD_83 (wl_rows wl ! i)"
    unfolding r nth_prepare_True [OF i] by simp_all
  have lm: "length ?m = length (wl_rows wl)"
    by (simp add: length_duplicated)
  have mi: "?m ! i"
    unfolding dup_mask_nth [OF i] using assms(8) co by simp
  have kn: "?k < mask_sum ?m"
    unfolding id using mask_sum_take_less [of i ?m] i lm mi by simp
  have own: "\<forall>i' < nat (Well_ID r - 1). ?m ! i' \<longrightarrow> mask_sum (take i' ?m) < ?k"
    unfolding id using mask_sum_take_mono [of _ i ?m] i lm by simp
  have lon: "plot_lon r = rnd (Longitude_NAD_83 r + ?a)"
    unfolding id unfolding r nth_prepare_True [OF i] using mi by simp
  have lat: "plot_lat r = rnd (Latitude_NAD_83 r + ?b)"
    unfolding id unfolding r nth_prepare_True [OF i] using mi by simp
  have "rnd 0 \<le> rnd (3 / 10000)"
    using assms(1) by simp
  then have c0: "0 \<le> ?c"
    using assms(2) by simp
  have ba: "\<bar>?a\<bar> \<le> ?c"
    using assms(6) by (intro uniform_draw_bounds assms(1-5) c0) simp_all
  have bb: "\<bar>?b\<bar> \<le> ?c"
    using assms(6) by (intro uniform_draw_bounds assms(1-5) c0) simp_all
  have sa: "rnd (Longitude_NAD_83 r - ?c) \<le> plot_lon r \<and> plot_lon r \<le> rnd (Longitude_NAD_83 r + ?c)"
    unfolding lon by (rule rounded_sum_bounds [OF assms(1) ba])
  have sb: "rnd (Latitude_NAD_83 r - ?c) \<le> plot_lat r \<and> plot_lat r \<le> rnd (Latitude_NAD_83 r + ?c)"
    unfolding lat by (rule rounded_sum_bounds [OF assms(1) bb])
  show ?thesis
    unfolding Let_def using kn own lon lat ba bb sa sb by blast
qed

lemma ex_round_mono: "\<forall>x y. x \<le> y \<longrightarrow> ex_round x \<le> ex_round y"
  by (simp add: ex_round_def round_mono divide_right_mono)

lemma ex_round_literal: "ex_round (3 / 10000) = 315 / 1048576"
  by (simp add: ex_round_def round_def)

lemma ex_rng_unit: "0 \<le> ex_rng k \<and> ex_rng k < 1"
  by (simp add: ex_rng_def)

lemma ex_rng_mid_unit: "0 \<le> ex_rng_mid k \<and> ex_rng_mid k < 1"
  by (simp add: ex_rng_mid_def)

text \<open>
  C5 as stated fails: nothing keeps a draw away from zero. The sample \<open>1 / 2\<close> is the
  middle of the interval and gives the draw \<open>- c + 2 * c / 2 = 0\<close>. With the two wells
  of \<open>ex_twins\<close> at the same coordinates and a generator whose samples 0 and 2 are
  \<open>1 / 2\<close>, the first well is displayed exactly at its source coordinates.
\<close>

theorem jitter_may_vanish:
  "Longitude_NAD_83 (wl_rows ex_twins ! 0) = Longitude_NAD_83 (wl_rows ex_twins ! 1) \<and>
   Latitude_NAD_83 (wl_rows ex_twins ! 0) = Latitude_NAD_83 (wl_rows ex_twins ! 1) \<and>
   plot_lon (prepare_well_data ex_round ex_twins [] [] True ex_rng_mid ! 0) = Longitude_NAD_83 (wl_rows ex_twins ! 0) \<and>
   plot_lat (prepare_well_data ex_round ex_twins [] [] True ex_rng_mid ! 0) = Latitude_NAD_83 (wl_rows ex_twins ! 0)"
  unfolding ex_twins_prepared by (simp add: ex_twins_def)

text \<open>
  Well A of the example shares its coordinates with well B; with the rounding of the
  examples \<open>c\<close> is \<open>315 / 2 ^ 20\<close> and the draws of well A are \<open>- 105 / 2 ^ 20\<close> and
  \<open>- 189 / 2 ^ 20\<close>.
\<close>

theorem duplicates_jittered_witness:
  "plot_lon (prepare_well_data ex_round ex_welllist ex_prod ex_inj False ex_rng ! 0) =
     ex_round (- 80 + - (105 / 1048576)) \<and>
   plot_lat (prepare_well_data ex_round ex_welllist ex_prod ex_inj False ex_rng ! 0) =
     ex_round (53 + - (189 / 1048576))"
proof -
  let ?r = "prepare_well_data ex_round ex_welllist ex_prod ex_inj False ex_rng ! 0"
  let ?m = "duplicated_keep_False (zip (map Longitude_NAD_83 (wl_rows ex_welllist)) (map Latitude_NAD_83 (wl_rows ex_welllist)))"
  have h0: "ex_round 0 = 0"
    by (simp add: ex_round_def)
  have h1: "ex_round (ex_round (3 / 10000)) = ex_round (3 / 10000)"
    by (simp add: ex_round_def round_def)
  have h2: "ex_round (- ex_round (3 / 10000)) = - ex_round (3 / 10000)"
    by (simp add: ex_round_def round_def)
  have h3: "ex_round (ex_round (3 / 10000) - - ex_round (3 / 10000)) = 2 * ex_round (3 / 10000)"
    by (simp add: ex_round_def round_def)
  have g: "\<forall>k. 0 \<le> ex_rng k \<and> ex_rng k < 1"
    using ex_rng_unit by blast
  have m: "?r \<in> set (prepare_well_data ex_round ex_welllist ex_prod ex_inj False ex_rng)"
    by (simp add: ex_prepared_known)
  have c: "1 < count_list (zip (map Longitude_NAD_83 (wl_rows ex_welllist)) (map Latitude_NAD_83 (wl_rows ex_welllist)))
             (Longitude_NAD_83 ?r, Latitude_NAD_83 ?r)"
    unfolding ex_prepared_known by (simp add: ex_welllist_def)
  have k: "mask_sum (take (nat (Well_ID ?r - 1)) ?m) = 0"
    unfolding ex_prepared_known by (simp add: mask_sum_def)
  have n: "mask_sum ?m = 2"
    by (simp add: ex_welllist_def mask_sum_def duplicated_keep_False_def)
  have s: "Longitude_NAD_83 ?r = - 80" "Latitude_NAD_83 ?r = 53"
    unfolding ex_prepared_known by simp_all
  have a: "uniform_draw ex_round (- ex_round (3 / 10000)) (ex_round (3 / 10000)) (ex_rng 0) = - (105 / 1048576)"
    by (simp add: uniform_draw_def ex_round_def round_def ex_rng_def)
  have b: "uniform_draw ex_round (- ex_round (3 / 10000)) (ex_round (3 / 10000)) (ex_rng (0 + 2)) = - (189 / 1048576)"
    by (simp add: uniform_draw_def ex_round_def round_def ex_rng_def)
  from duplicates_jittered [OF ex_round_mono h0 h1 h2 h3 g m c] show ?thesis
    unfolding Let_def k n s a b by blast
qed

section \<open>Properties of the chart builders\<close>

lemma df_where_filter:
  "df_where (map P df) df = filter P df"
  by (induction df) (simp_all add: df_where_def)

lemma df_where_eq_mask:
  "df_where (eq_mask (map f df) v) df = filter (\<lambda>r. f r = v) df"
  using df_where_filter [of "\<lambda>r. f r = v" df] by (simp add: eq_mask_def comp_def)

lemma df_where_isin:
  "df_where (isin (map f df) vs) df = filter (\<lambda>r. f r \<in> set vs) df"
  using df_where_filter [of "\<lambda>r. f r \<in> set vs" df] by (simp add: isin_def comp_def)

lemma foldl_add_trace:
  "foldl (\<lambda>fig w. add_trace fig (f w)) fig ws = fig\<lparr>fig_data := fig_data fig @ map f ws\<rparr>"
  by (induction ws arbitrary: fig) (simp_all add: add_trace_def)

lemma foldl_add_trace_enumerate:
  "foldl (\<lambda>fig (i, w). add_trace fig (f i w)) fig xs =
     fig\<lparr>fig_data := fig_data fig @ map (\<lambda>(i, w). f i w) xs\<rparr>"
  by (induction xs arbitrary: fig) (auto simp: add_trace_def)

lemma foldl_add_two_traces:
  "foldl (\<lambda>fig w. add_trace (add_trace fig (f w)) (h w)) fig ws =
     fig\<lparr>fig_data := fig_data fig @ concat (map (\<lambda>w. [f w, h w]) ws)\<rparr>"
  by (induction ws arbitrary: fig) (simp_all add: add_trace_def)

lemma foldl_add_two_traces_enumerate:
  "foldl (\<lambda>fig (i, w). add_trace (add_trace fig (f i w)) (h i w)) fig xs =
     fig\<lparr>fig_data := fig_data fig @ concat (map (\<lambda>(i, w). [f i w, h i w]) xs)\<rparr>"
  by (induction xs arbitrary: fig) (auto simp: add_trace_def)

lemma fig_data_update_layout:
  "fig_data (update_layout fig t xt yt yr y2t y2o y2s y2r bm) = fig_data fig"
  by (simp add: update_layout_def)

lemma water_inj_prod_data:
  "fig_data (plot_water_inj_prod td prod_df inj_df pw iw) =
     map (\<lambda>well. go_Bar (map td (map prod_Date (filter (\<lambda>r. prod_UWI r = well) prod_df)))
                     (map Water_M3 (filter (\<lambda>r. prod_UWI r = well) prod_df))
                     (''Water Production from well '' @ well) (Some ''y2'') None None) pw @
     map (\<lambda>well. go_Scatter (map td (map inj_Date (filter (\<lambda>r. inj_UWI r = well) inj_df)))
                     (map Water_Inj_M3 (filter (\<lambda>r. inj_UWI r = well) inj_df))
                     (''Water Injection into Well '' @ well) (Some ''lines+markers'') None None) iw"
  by (simp add: plot_water_inj_prod_def Let_def fig_data_update_layout foldl_add_trace
        df_where_eq_mask go_Figure_def)

lemma oil_inj_prod_data:
  "fig_data (plot_oil_inj_prod td prod_df inj_df pw iw) =
     map (\<lambda>(i, well). go_Scatter (map td (map prod_Date (filter (\<lambda>r. prod_UWI r = well) prod_df)))
                     (map Oil_M3 (filter (\<lambda>r. prod_UWI r = well) prod_df))
                     (''Oil Production from well '' @ well) (Some ''lines+markers'') (Some ''y2'')
                     (if i = 0 then Some ''brown'' else None)) (enumerate 0 pw) @
     map (\<lambda>(j, well). go_Scatter (map td (map inj_Date (filter (\<lambda>r. inj_UWI r = well) inj_df)))
                     (map Water_Inj_M3 (filter (\<lambda>r. inj_UWI r = well) inj_df))
                     (''Water Injection into Well '' @ well) (Some ''lines+markers'') None
                     (if j = 0 then Some ''blue'' else None)) (enumerate 0 iw)"
  by (simp add: plot_oil_inj_prod_def Let_def fig_data_update_layout foldl_add_trace_enumerate
        df_where_eq_mask go_Figure_def)

lemma gas_inj_prod_data:
  "fig_data (plot_gas_inj_prod td prod_df inj_df pw iw) =
     map (\<lambda>(i, well). go_Bar (map td (map prod_Date (filter (\<lambda>r. prod_UWI r = well) prod_df)))
                     (map Gas_E3M3 (filter (\<lambda>r. prod_UWI r = well) prod_df))
                     (''Gas Production from well '' @ well) (Some ''y2'')
                     (if i = 0 then Some ''green'' else None) None) (enumerate 0 pw) @
     map (\<lambda>well. go_Scatter (map td (map inj_Date (filter (\<lambda>r. inj_UWI r = well) inj_df)))
                     (map Water_Inj_M3 (filter (\<lambda>r. inj_UWI r = well) inj_df))
                     (''Water Injection into Well '' @ well) (Some ''lines+markers'') None None) iw"
  by (simp add: plot_gas_inj_prod_def Let_def fig_data_update_layout foldl_add_trace_enumerate
        foldl_add_trace df_where_eq_mask go_Figure_def)

lemma oil_water_prod_data:
  "fig_data (plot_oil_water_prod td prod_df pw) =
     concat (map (\<lambda>well.
       [go_Scatter (map td (map prod_Date (filter (\<lambda>r. prod_UWI r = well) prod_df)))
          (map Oil_M3 (filter (\<lambda>r. prod_UWI r = well) prod_df))
          (''Oil Production '' @ well) (Some ''lines+markers'') (Some ''y1'')
          (if length pw = 1 then Some ''brown'' else None),
        go_Bar (map td (map prod_Date (filter (\<lambda>r. prod_UWI r = well) prod_df)))
          (map Water_M3 (filter (\<lambda>r. prod_UWI r = well) prod_df))
          (''Water Production '' @ well) (Some ''y2'') None (Some (1 / 2))]) pw)"
  by (simp add: plot_oil_water_prod_def Let_def fig_data_update_layout foldl_add_two_traces
        df_where_eq_mask go_Figure_def)

lemma gas_water_prod_data:
  "fig_data (plot_gas_water_prod td prod_df pw) =
     concat (map (\<lambda>(i, well).
       [go_Scatter (map td (map prod_Date (filter (\<lambda>r. prod_UWI r = well) prod_df)))
          (map Gas_E3M3 (filter (\<lambda>r. prod_UWI r = well) prod_df))
          (''Gas Production '' @ well) (Some ''lines+markers'') (Some ''y1'')
          (if i = 0 then Some ''green'' else None),
        go_Bar (map td (map prod_Date (filter (\<lambda>r. prod_UWI r = well) prod_df)))
          (map Water_M3 (filter (\<lambda>r. prod_UWI r = well) prod_df))
          (''Water Production '' @ well) (Some ''y2'') None (Some (1 / 2))]) (enumerate 0 pw))"
  by (simp add: plot_gas_water_prod_def Let_def fig_data_update_layout foldl_add_two_traces_enumerate
        df_where_eq_mask go_Figure_def)


lemma length_concat_pairs: "length (concat (map (\<lambda>x. [f x, h x]) xs)) = 2 * length xs"
  by (induction xs) simp_all

lemma nth_concat_pairs:
  "k < length xs \<Longrightarrow>
     concat (map (\<lambda>x. [f x, h x]) xs) ! (2 * k) = f (xs ! k) \<and>
     concat (map (\<lambda>x. [f x, h x]) xs) ! (2 * k + 1) = h (xs ! k)"
proof (induction xs arbitrary: k)
  case Nil
  then show ?case by simp
next
  case (Cons x xs)
  then show ?case by (cases k) simp_all
qed

lemma filter_absent:
  "w \<notin> set (map f df) \<Longrightarrow> filter (\<lambda>r. f r = w) df = []"
  by (induction df) auto

lemma series_max_eq:
  "series_max col = (if dropna col = [] then NaN else Num (Max (set (dropna col))))"
proof (cases "dropna col")
  case Nil
  then show ?thesis by (simp add: series_max_def)
next
  case (Cons v vs)
  then show ?thesis
    using Max.set_eq_fold [of v vs] by (simp add: series_max_def)
qed

lemma py_max_Num: "py_max (Num a) (Num b) = Num (max a b)"
  by (simp add: py_max_def max_def)

lemma py_max_floor:
  "py_max (Num a) (series_max col) = Num (Max (insert a (set (dropna col))))"
proof (cases "dropna col = []")
  case True
  then show ?thesis by (simp add: series_max_eq py_max_def)
next
  case False
  then have "Max (insert a (set (dropna col))) = max a (Max (set (dropna col)))"
    by (simp add: Max_insert)
  then show ?thesis
    using False by (simp add: series_max_eq py_max_def max_def)
qed

lemma Max_insert_Max:
  assumes "finite P" and "finite I"
  shows "Max (insert (Max (insert a P)) I) = Max (insert (a::real) (P \<union> I))"
proof (cases "I = {}")
  case True
  then show ?thesis by simp
next
  case False
  have "Max (insert a (P \<union> I)) = Max (insert a P \<union> I)"
    by simp
  also have "\<dots> = max (Max (insert a P)) (Max I)"
    using assms False by (intro Max_Un) simp_all
  also have "\<dots> = Max (insert (Max (insert a P)) I)"
    using assms False by (simp add: Max_insert)
  finally show ?thesis by simp
qed

lemma prod_floor:
  "(if pw \<noteq> [] then py_max (Num 0) (series_max (map pc (filter (\<lambda>r. prod_UWI r \<in> set pw) prod_df))) else Num 0)
     = Num (Max (insert 0 (set (prod_series pc prod_df pw))))"
  by (simp add: py_max_floor prod_series_def)

lemma shared_scale:
  "(if iw \<noteq> []
    then py_max (if pw \<noteq> [] then py_max (Num 0) (series_max (map pc (filter (\<lambda>r. prod_UWI r \<in> set pw) prod_df))) else Num 0)
           (series_max (map Water_Inj_M3 (filter (\<lambda>r. inj_UWI r \<in> set iw) inj_df)))
    else (if pw \<noteq> [] then py_max (Num 0) (series_max (map pc (filter (\<lambda>r. prod_UWI r \<in> set pw) prod_df))) else Num 0))
     = Num (Max (insert 0 (set (prod_series pc prod_df pw) \<union> set (inj_series inj_df iw))))"
  unfolding prod_floor
  by (simp add: py_max_floor inj_series_def Max_insert_Max)

lemma water_inj_prod_ranges:
  "layout_yaxis_range (fig_layout (plot_water_inj_prod td prod_df inj_df pw iw)) =
     Some (Num 0, Num (Max (insert 0 (set (prod_series Water_M3 prod_df pw) \<union> set (inj_series inj_df iw))))) \<and>
   layout_yaxis2_range (fig_layout (plot_water_inj_prod td prod_df inj_df pw iw)) =
     Some (Num 0, Num (Max (insert 0 (set (prod_series Water_M3 prod_df pw) \<union> set (inj_series inj_df iw)))))"
  unfolding plot_water_inj_prod_def Let_def df_where_isin shared_scale
  by (simp add: update_layout_def)

lemma oil_inj_prod_ranges:
  "layout_yaxis_range (fig_layout (plot_oil_inj_prod td prod_df inj_df pw iw)) =
     Some (Num 0, Num (Max (insert 0 (set (prod_series Oil_M3 prod_df pw) \<union> set (inj_series inj_df iw))))) \<and>
   layout_yaxis2_range (fig_layout (plot_oil_inj_prod td prod_df inj_df pw iw)) =
     Some (Num 0, Num (Max (insert 0 (set (prod_series Oil_M3 prod_df pw) \<union> set (inj_series inj_df iw)))))"
  unfolding plot_oil_inj_prod_def Let_def df_where_isin shared_scale
  by (simp add: update_layout_def)

lemma gas_inj_prod_ranges:
  "layout_yaxis_range (fig_layout (plot_gas_inj_prod td prod_df inj_df pw iw)) =
     Some (Num 0, Num (Max (insert 0 (set (prod_series Gas_E3M3 prod_df pw) \<union> set (inj_series inj_df iw))))) \<and>
   layout_yaxis2_range (fig_layout (plot_gas_inj_prod td prod_df inj_df pw iw)) =
     Some (Num 0, Num (Max (insert 0 (set (prod_series Gas_E3M3 prod_df pw) \<union> set (inj_series inj_df iw)))))"
  unfolding plot_gas_inj_prod_def Let_def df_where_isin shared_scale
  by (simp add: update_layout_def)

lemma py_max_first:
  assumes "dropna c1 \<noteq> []"
  shows "py_max (series_max c1) (series_max c2) = Num (Max (set (dropna c1) \<union> set (dropna c2)))"
proof -
  obtain v vs where d: "dropna c1 = v # vs"
    using assms by (cases "dropna c1") auto
  have "series_max c1 = Num (Max (insert v (set vs)))"
    using d by (simp add: series_max_eq)
  then have "py_max (series_max c1) (series_max c2) =
               Num (Max (insert (Max (insert v (set vs))) (set (dropna c2))))"
    by (simp only: py_max_floor)
  also have "\<dots> = Num (Max (insert v (set vs \<union> set (dropna c2))))"
    using Max_insert_Max [of "set vs" "set (dropna c2)" v] by simp
  finally show ?thesis
    using d by simp
qed

lemma oil_water_prod_ranges:
  "layout_yaxis_range (fig_layout (plot_oil_water_prod td prod_df pw)) =
     layout_yaxis2_range (fig_layout (plot_oil_water_prod td prod_df pw)) \<and>
   layout_yaxis_range (fig_layout (plot_oil_water_prod td prod_df [])) = Some (Num 0, Num 0) \<and>
   (prod_series Oil_M3 prod_df pw \<noteq> [] \<longrightarrow>
      layout_yaxis_range (fig_layout (plot_oil_water_prod td prod_df pw)) =
        Some (Num 0, Num (Max (set (prod_series Oil_M3 prod_df pw) \<union> set (prod_series Water_M3 prod_df pw)))))"
proof (intro conjI impI)
  show "layout_yaxis_range (fig_layout (plot_oil_water_prod td prod_df pw)) =
     layout_yaxis2_range (fig_layout (plot_oil_water_prod td prod_df pw))"
    by (simp add: plot_oil_water_prod_def Let_def update_layout_def)
  show "layout_yaxis_range (fig_layout (plot_oil_water_prod td prod_df [])) = Some (Num 0, Num 0)"
    by (simp add: plot_oil_water_prod_def Let_def update_layout_def)
  assume a: "prod_series Oil_M3 prod_df pw \<noteq> []"
  then have "pw \<noteq> []"
    by (auto simp: prod_series_def)
  then show "layout_yaxis_range (fig_layout (plot_oil_water_prod td prod_df pw)) =
        Some (Num 0, Num (Max (set (prod_series Oil_M3 prod_df pw) \<union> set (prod_series Water_M3 prod_df pw))))"
    using a py_max_first [of "map Oil_M3 (filter (\<lambda>r. prod_UWI r \<in> set pw) prod_df)"
                            "map Water_M3 (filter (\<lambda>r. prod_UWI r \<in> set pw) prod_df)"]
    by (simp add: plot_oil_water_prod_def Let_def update_layout_def df_where_isin prod_series_def)
qed

lemma gas_water_prod_ranges:
  "layout_yaxis_range (fig_layout (plot_gas_water_prod td prod_df pw)) =
     layout_yaxis2_range (fig_layout (plot_gas_water_prod td prod_df pw)) \<and>
   layout_yaxis_range (fig_layout (plot_gas_water_prod td prod_df [])) = Some (Num 0, Num 0) \<and>
   (prod_series Gas_E3M3 prod_df pw \<noteq> [] \<longrightarrow>
      layout_yaxis_range (fig_layout (plot_gas_water_prod td prod_df pw)) =
        Some (Num 0, Num (Max (set (prod_series Gas_E3M3 prod_df pw) \<union> set (prod_series Water_M3 prod_df pw)))))"
proof (intro conjI impI)
  show "layout_yaxis_range (fig_layout (plot_gas_water_prod td prod_df pw)) =
     layout_yaxis2_range (fig_layout (plot_gas_water_prod td prod_df pw))"
    by (simp add: plot_gas_water_prod_def Let_def update_layout_def)
  show "layout_yaxis_range (fig_layout (plot_gas_water_prod td prod_df [])) = Some (Num 0, Num 0)"
    by (simp add: plot_gas_water_prod_def Let_def update_layout_def)
  assume a: "prod_series Gas_E3M3 prod_df pw \<noteq> []"
  then have "pw \<noteq> []"
    by (auto simp: prod_series_def)
  then show "layout_yaxis_range (fig_layout (plot_gas_water_prod td prod_df pw)) =
        Some (Num 0, Num (Max (set (prod_series Gas_E3M3 prod_df pw) \<union> set (prod_series Water_M3 prod_df pw))))"
    using a py_max_first [of "map Gas_E3M3 (filter (\<lambda>r. prod_UWI r \<in> set pw) prod_df)"
                            "map Water_M3 (filter (\<lambda>r. prod_UWI r \<in> set pw) prod_df)"]
    by (simp add: plot_gas_water_prod_def Let_def update_layout_def df_where_isin prod_series_def)
qed

section \<open>Selected wells without records\<close>

text \<open>
  C7. A builder called with a selected well that does not occur in its source table
  returns a chart like any other (the builders are total: the row selection of such a
  well is the empty table, and no step depends on its having rows), and the trace of
  that well has no data points. The traces stand in selection order: in the three
  injection charts the trace of production well \<open>k\<close> is trace \<open>k\<close> and that of injection
  well \<open>k\<close> is trace \<open>length pw + k\<close>; in the two production charts production well \<open>k\<close>
  has the traces \<open>2 * k\<close> and \<open>2 * k + 1\<close>. Each of them is the trace named after the well,
  with empty \<open>x\<close> and \<open>y\<close>.
\<close>

theorem absent_well_empty_trace:
  "(\<forall>k < length pw. pw ! k \<notin> set (map prod_UWI prod_df) \<longrightarrow>
      fig_data (plot_water_inj_prod td prod_df inj_df pw iw) ! k =
        go_Bar [] [] (''Water Production from well '' @ pw ! k) (Some ''y2'') None None \<and>
      fig_data (plot_oil_inj_prod td prod_df inj_df pw iw) ! k =
        go_Scatter [] [] (''Oil Production from well '' @ pw ! k) (Some ''lines+markers'') (Some ''y2'')
          (if k = 0 then Some ''brown'' else None) \<and>
      fig_data (plot_gas_inj_prod td prod_df inj_df pw iw) ! k =
        go_Bar [] [] (''Gas Production from well '' @ pw ! k) (Some ''y2'')
          (if k = 0 then Some ''green'' else None) None \<and>
      fig_data (plot_oil_water_prod td prod_df pw) ! (2 * k) =
        go_Scatter [] [] (''Oil Production '' @ pw ! k) (Some ''lines+markers'') (Some ''y1'')
          (if length pw = 1 then Some ''brown'' else None) \<and>
      fig_data (plot_oil_water_prod td prod_df pw) ! (2 * k + 1) =
        go_Bar [] [] (''Water Production '' @ pw ! k) (Some ''y2'') None (Some (1 / 2)) \<and>
      fig_data (plot_gas_water_prod td prod_df pw) ! (2 * k) =
        go_Scatter [] [] (''Gas Production '' @ pw ! k) (Some ''lines+markers'') (Some ''y1'')
          (if k = 0 then Some ''green'' else None) \<and>
      fig_data (plot_gas_water_prod td prod_df pw) ! (2 * k + 1) =
        go_Bar [] [] (''Water Production '' @ pw ! k) (Some ''y2'') None (Some (1 / 2))) \<and>
   (\<forall>k < length iw. iw ! k \<notin> set (map inj_UWI inj_df) \<longrightarrow>
      fig_data (plot_water_inj_prod td prod_df inj_df pw iw) ! (length pw + k) =
        go_Scatter [] [] (''Water Injection into Well '' @ iw ! k) (Some ''lines+markers'') None None \<and>
      fig_data (plot_oil_inj_prod td prod_df inj_df pw iw) ! (length pw + k) =
        go_Scatter [] [] (''Water Injection into Well '' @ iw ! k) (Some ''lines+markers'') None
          (if k = 0 then Some ''blue'' else None) \<and>
      fig_data (plot_gas_inj_prod td prod_df inj_df pw iw) ! (length pw + k) =
        go_Scatter [] [] (''Water Injection into Well '' @ iw ! k) (Some ''lines+markers'') None None)"
proof (intro conjI allI impI)
  fix k
  assume k: "k < length pw" and a: "pw ! k \<notin> set (map prod_UWI prod_df)"
  have ke: "k < length (enumerate 0 pw)"
    using k by simp
  have e: "snd (enumerate 0 pw ! k) = pw ! k" "fst (enumerate 0 pw ! k) = k"
    using k by (simp_all add: nth_enumerate_eq)
  show "fig_data (plot_water_inj_prod td prod_df inj_df pw iw) ! k =
        go_Bar [] [] (''Water Production from well '' @ pw ! k) (Some ''y2'') None None"
    using k by (simp add: water_inj_prod_data nth_append filter_absent [OF a])
  show "fig_data (plot_oil_inj_prod td prod_df inj_df pw iw) ! k =
        go_Scatter [] [] (''Oil Production from well '' @ pw ! k) (Some ''lines+markers'') (Some ''y2'')
          (if k = 0 then Some ''brown'' else None)"
    using k by (simp add: oil_inj_prod_data nth_append nth_enumerate_eq filter_absent [OF a])
  show "fig_data (plot_gas_inj_prod td prod_df inj_df pw iw) ! k =
        go_Bar [] [] (''Gas Production from well '' @ pw ! k) (Some ''y2'')
          (if k = 0 then Some ''green'' else None) None"
    using k by (simp add: gas_inj_prod_data nth_append nth_enumerate_eq filter_absent [OF a])
  show "fig_data (plot_oil_water_prod td prod_df pw) ! (2 * k) =
        go_Scatter [] [] (''Oil Production '' @ pw ! k) (Some ''lines+markers'') (Some ''y1'')
          (if length pw = 1 then Some ''brown'' else None)"
    unfolding oil_water_prod_data
    by (simp only: nth_concat_pairs [OF k]) (simp add: filter_absent [OF a])
  show "fig_data (plot_oil_water_prod td prod_df pw) ! (2 * k + 1) =
        go_Bar [] [] (''Water Production '' @ pw ! k) (Some ''y2'') None (Some (1 / 2))"
    unfolding oil_water_prod_data
    by (simp only: nth_concat_pairs [OF k]) (simp add: filter_absent [OF a])
  show "fig_data (plot_gas_water_prod td prod_df pw) ! (2 * k) =
        go_Scatter [] [] (''Gas Production '' @ pw ! k) (Some ''lines+markers'') (Some ''y1'')
          (if k = 0 then Some ''green'' else None)"
    unfolding gas_water_prod_data case_prod_beta
    by (simp only: nth_concat_pairs [OF ke] e) (simp add: filter_absent [OF a])
  show "fig_data (plot_gas_water_prod td prod_df pw) ! (2 * k + 1) =
        go_Bar [] [] (''Water Production '' @ pw ! k) (Some ''y2'') None (Some (1 / 2))"
    unfolding gas_water_prod_data case_prod_beta
    by (simp only: nth_concat_pairs [OF ke] e) (simp add: filter_absent [OF a])
next
  fix k
  assume k: "k < length iw" and a: "iw ! k \<notin> set (map inj_UWI inj_df)"
  show "fig_data (plot_water_inj_prod td prod_df inj_df pw iw) ! (length pw + k) =
        go_Scatter [] [] (''Water Injection into Well '' @ iw ! k) (Some ''lines+markers'') None None"
    using k by (simp add: water_inj_prod_data nth_append filter_absent [OF a])
  show "fig_data (plot_oil_inj_prod td prod_df inj_df pw iw) ! (length pw + k) =
        go_Scatter [] [] (''Water Injection into Well '' @ iw ! k) (Some ''lines+markers'') None
          (if k = 0 then Some ''blue'' else None)"
    using k by (simp add: oil_inj_prod_data nth_append nth_enumerate_eq filter_absent [OF a])
  show "fig_data (plot_gas_inj_prod td prod_df inj_df pw iw) ! (length pw + k) =
        go_Scatter [] [] (''Water Injection into Well '' @ iw ! k) (Some ''lines+markers'') None None"
    using k by (simp add: gas_inj_prod_data nth_append nth_enumerate_eq filter_absent [OF a])
qed

text \<open>Neither well Z nor well Q has a record in the example tables.\<close>

theorem absent_well_empty_trace_witness:
  "trace_x (fig_data (plot_water_inj_prod ex_to_datetime ex_prod ex_inj [''A'', ''Z''] [''Q'']) ! 1) = [] \<and>
   trace_y (fig_data (plot_water_inj_prod ex_to_datetime ex_prod ex_inj [''A'', ''Z''] [''Q'']) ! 1) = [] \<and>
   trace_x (fig_data (plot_water_inj_prod ex_to_datetime ex_prod ex_inj [''A'', ''Z''] [''Q'']) ! 2) = [] \<and>
   trace_y (fig_data (plot_water_inj_prod ex_to_datetime ex_prod ex_inj [''A'', ''Z''] [''Q'']) ! 2) = []"
proof -
  note t = absent_well_empty_trace [of "[''A'', ''Z'']" ex_prod ex_to_datetime ex_inj "[''Q'']"]
  have p: "(1::nat) < length [''A'', ''Z'']" "[''A'', ''Z''] ! 1 \<notin> set (map prod_UWI ex_prod)"
    by (simp_all add: ex_prod_def)
  have q: "(0::nat) < length [''Q'']" "[''Q''] ! 0 \<notin> set (map inj_UWI ex_inj)"
    by (simp_all add: ex_inj_def)
  have a: "fig_data (plot_water_inj_prod ex_to_datetime ex_prod ex_inj [''A'', ''Z''] [''Q'']) ! 1 =
          go_Bar [] [] (''Water Production from well '' @ [''A'', ''Z''] ! 1) (Some ''y2'') None None"
    using t [THEN conjunct1, rule_format, OF p] by (rule conjunct1)
  have b: "fig_data (plot_water_inj_prod ex_to_datetime ex_prod ex_inj [''A'', ''Z''] [''Q'']) ! 2 =
          go_Scatter [] [] (''Water Injection into Well '' @ [''Q''] ! 0) (Some ''lines+markers'') None None"
    using t [THEN conjunct2, rule_format, OF q] by (simp add: numeral_2_eq_2)
  show ?thesis
    unfolding a b by (simp add: go_Bar_def go_Scatter_def)
qed

section \<open>The oil and water chart\<close>

text \<open>
  C9. In the chart of \<^verbatim>\<open>plot_oil_water_prod\<close> every selected well contributes two traces,
  in selection order: its oil line (a scatter trace of the \<^verbatim>\<open>Oil M3\<close> values of its rows)
  and then its water bar (a bar trace of their \<^verbatim>\<open>Water M3\<close> values). The oil line is
  brown exactly when one well is selected; with any other number of selected wells no
  oil line has a colour.
\<close>

theorem oil_water_traces:
  "length (fig_data (plot_oil_water_prod td prod_df pw)) = 2 * length pw \<and>
   (\<forall>k < length pw.
      fig_data (plot_oil_water_prod td prod_df pw) ! (2 * k) =
        go_Scatter (map td (map prod_Date (filter (\<lambda>r. prod_UWI r = pw ! k) prod_df)))
          (map Oil_M3 (filter (\<lambda>r. prod_UWI r = pw ! k) prod_df))
          (''Oil Production '' @ pw ! k) (Some ''lines+markers'') (Some ''y1'')
          (if length pw = 1 then Some ''brown'' else None) \<and>
      fig_data (plot_oil_water_prod td prod_df pw) ! (2 * k + 1) =
        go_Bar (map td (map prod_Date (filter (\<lambda>r. prod_UWI r = pw ! k) prod_df)))
          (map Water_M3 (filter (\<lambda>r. prod_UWI r = pw ! k) prod_df))
          (''Water Production '' @ pw ! k) (Some ''y2'') None (Some (1 / 2)) \<and>
      trace_kind (fig_data (plot_oil_water_prod td prod_df pw) ! (2 * k)) = Scatter \<and>
      trace_kind (fig_data (plot_oil_water_prod td prod_df pw) ! (2 * k + 1)) = Bar \<and>
      (trace_line_color (fig_data (plot_oil_water_prod td prod_df pw) ! (2 * k)) = Some ''brown''
         \<longleftrightarrow> length pw = 1) \<and>
      (length pw \<noteq> 1 \<longrightarrow>
         trace_line_color (fig_data (plot_oil_water_prod td prod_df pw) ! (2 * k)) = None))"
proof (intro conjI allI impI)
  show "length (fig_data (plot_oil_water_prod td prod_df pw)) = 2 * length pw"
    unfolding oil_water_prod_data by (rule length_concat_pairs)
next
  fix k
  assume k: "k < length pw"
  show s: "fig_data (plot_oil_water_prod td prod_df pw) ! (2 * k) =
        go_Scatter (map td (map prod_Date (filter (\<lambda>r. prod_UWI r = pw ! k) prod_df)))
          (map Oil_M3 (filter (\<lambda>r. prod_UWI r = pw ! k) prod_df))
          (''Oil Production '' @ pw ! k) (Some ''lines+markers'') (Some ''y1'')
          (if length pw = 1 then Some ''brown'' else None)"
    unfolding oil_water_prod_data by (simp only: nth_concat_pairs [OF k])
  show b: "fig_data (plot_oil_water_prod td prod_df pw) ! (2 * k + 1) =
        go_Bar (map td (map prod_Date (filter (\<lambda>r. prod_UWI r = pw ! k) prod_df)))
          (map Water_M3 (filter (\<lambda>r. prod_UWI r = pw ! k) prod_df))
          (''Water Production '' @ pw ! k) (Some ''y2'') None (Some (1 / 2))"
    unfolding oil_water_prod_data by (simp only: nth_concat_pairs [OF k])
  show "trace_kind (fig_data (plot_oil_water_prod td prod_df pw) ! (2 * k)) = Scatter"
    unfolding s by (simp add: go_Scatter_def)
  show "trace_kind (fig_data (plot_oil_water_prod td prod_df pw) ! (2 * k + 1)) = Bar"
    unfolding b by (simp add: go_Bar_def)
  show "trace_line_color (fig_data (plot_oil_water_prod td prod_df pw) ! (2 * k)) = Some ''brown''
         \<longleftrightarrow> length pw = 1"
    unfolding s by (simp add: go_Scatter_def)
  show "trace_line_color (fig_data (plot_oil_water_prod td prod_df pw) ! (2 * k)) = None"
    if "length pw \<noteq> 1"
    unfolding s using that by (simp add: go_Scatter_def)
qed

text \<open>Well A alone is drawn in brown; selected together with well C it is not.\<close>

theorem oil_water_traces_witness:
  "trace_line_color (fig_data (plot_oil_water_prod ex_to_datetime ex_prod [''A'']) ! 0) = Some ''brown'' \<and>
   trace_y (fig_data (plot_oil_water_prod ex_to_datetime ex_prod [''A'']) ! 0) = [Num 10, Num 20] \<and>
   trace_y (fig_data (plot_oil_water_prod ex_to_datetime ex_prod [''A'']) ! 1) = [Num 4, Num 7] \<and>
   trace_line_color (fig_data (plot_oil_water_prod ex_to_datetime ex_prod [''A'', ''C'']) ! 0) = None"
proof -
  have k1: "(0::nat) < length [''A'']"
    by simp
  have k2: "(0::nat) < length [''A'', ''C'']"
    by simp
  note t1 = oil_water_traces [of ex_to_datetime ex_prod "[''A'']", THEN conjunct2, rule_format, OF k1]
  note t2 = oil_water_traces [of ex_to_datetime ex_prod "[''A'', ''C'']", THEN conjunct2, rule_format, OF k2]
  have a: "fig_data (plot_oil_water_prod ex_to_datetime ex_prod [''A'']) ! 0 =
        go_Scatter (map ex_to_datetime (map prod_Date (filter (\<lambda>r. prod_UWI r = [''A''] ! 0) ex_prod)))
          (map Oil_M3 (filter (\<lambda>r. prod_UWI r = [''A''] ! 0) ex_prod))
          (''Oil Production '' @ [''A''] ! 0) (Some ''lines+markers'') (Some ''y1'')
          (if length [''A''] = 1 then Some ''brown'' else None)"
    using t1 by simp
  have b: "fig_data (plot_oil_water_prod ex_to_datetime ex_prod [''A'']) ! 1 =
        go_Bar (map ex_to_datetime (map prod_Date (filter (\<lambda>r. prod_UWI r = [''A''] ! 0) ex_prod)))
          (map Water_M3 (filter (\<lambda>r. prod_UWI r = [''A''] ! 0) ex_prod))
          (''Water Production '' @ [''A''] ! 0) (Some ''y2'') None (Some (1 / 2))"
    using t1 by simp
  have c: "trace_line_color (fig_data (plot_oil_water_prod ex_to_datetime ex_prod [''A'', ''C'']) ! 0) = None"
    using t2 by (simp add: go_Scatter_def)
  show ?thesis
    unfolding a b using c by (simp add: go_Scatter_def go_Bar_def ex_prod_def)
qed


section \<open>The shared axis range\<close>

text \<open>
  C8 as stated fails where the selected wells have no value: the range is set all the
  same, to \<open>[0, 0]\<close>, and its upper end 0 is no value of any series. Injection well E of
  the example has one record, with a missing volume.
\<close>

theorem range_without_values:
  "layout_yaxis_range (fig_layout (plot_water_inj_prod ex_to_datetime ex_prod ex_inj [] [''E''])) =
     Some (Num 0, Num 0) \<and>
   layout_yaxis2_range (fig_layout (plot_water_inj_prod ex_to_datetime ex_prod ex_inj [] [''E''])) =
     Some (Num 0, Num 0) \<and>
   prod_series Water_M3 ex_prod [] = [] \<and>
   inj_series ex_inj [''E''] = []"
  by code_simp

text \<open>
  C8, as amended. In the charts of \<^verbatim>\<open>plot_water_inj_prod\<close>, \<^verbatim>\<open>plot_oil_inj_prod\<close> and
  \<^verbatim>\<open>plot_gas_inj_prod\<close> both y-axes have the range \<open>[0, m]\<close>, where \<open>m\<close> is the largest of 0
  and of the values present in the relevant production series of the selected
  production wells and in the \<^verbatim>\<open>Water Inj M3\<close> series of the selected injection wells.
  In the charts of \<^verbatim>\<open>plot_oil_water_prod\<close> and \<^verbatim>\<open>plot_gas_water_prod\<close> both y-axes have the
  same range, which is \<open>[0, 0]\<close> when no well is selected, and \<open>[0, m]\<close> with \<open>m\<close> the
  largest of the values present in the two series of the selected wells (oil or gas, and
  water) when the oil, respectively gas, series has a value.
\<close>

theorem shared_axis_range:
  "layout_yaxis_range (fig_layout (plot_water_inj_prod td prod_df inj_df pw iw)) =
     Some (Num 0, Num (Max (insert 0 (set (prod_series Water_M3 prod_df pw) \<union> set (inj_series inj_df iw))))) \<and>
   layout_yaxis2_range (fig_layout (plot_water_inj_prod td prod_df inj_df pw iw)) =
     Some (Num 0, Num (Max (insert 0 (set (prod_series Water_M3 prod_df pw) \<union> set (inj_series inj_df iw))))) \<and>
   layout_yaxis_range (fig_layout (plot_oil_inj_prod td prod_df inj_df pw iw)) =
     Some (Num 0, Num (Max (insert 0 (set (prod_series Oil_M3 prod_df pw) \<union> set (inj_series inj_df iw))))) \<and>
   layout_yaxis2_range (fig_layout (plot_oil_inj_prod td prod_df inj_df pw iw)) =
     Some (Num 0, Num (Max (insert 0 (set (prod_series Oil_M3 prod_df pw) \<union> set (inj_series inj_df iw))))) \<and>
   layout_yaxis_range (fig_layout (plot_gas_inj_prod td prod_df inj_df pw iw)) =
     Some (Num 0, Num (Max (insert 0 (set (prod_series Gas_E3M3 prod_df pw) \<union> set (inj_series inj_df iw))))) \<and>
   layout_yaxis2_range (fig_layout (plot_gas_inj_prod td prod_df inj_df pw iw)) =
     Some (Num 0, Num (Max (insert 0 (set (prod_series Gas_E3M3 prod_df pw) \<union> set (inj_series inj_df iw))))) \<and>
   layout_yaxis_range (fig_layout (plot_oil_water_prod td prod_df pw)) =
     layout_yaxis2_range (fig_layout (plot_oil_water_prod td prod_df pw)) \<and>
   layout_yaxis_range (fig_layout (plot_oil_water_prod td prod_df [])) = Some (Num 0, Num 0) \<and>
   (prod_series Oil_M3 prod_df pw \<noteq> [] \<longrightarrow>
      layout_yaxis_range (fig_layout (plot_oil_water_prod td prod_df pw)) =
        Some (Num 0, Num (Max (set (prod_series Oil_M3 prod_df pw) \<union> set (prod_series Water_M3 prod_df pw))))) \<and>
   layout_yaxis_range (fig_layout (plot_gas_water_prod td prod_df pw)) =
     layout_yaxis2_range (fig_layout (plot_gas_water_prod td prod_df pw)) \<and>
   layout_yaxis_range (fig_layout (plot_gas_water_prod td prod_df [])) = Some (Num 0, Num 0) \<and>
   (prod_series Gas_E3M3 prod_df pw \<noteq> [] \<longrightarrow>
      layout_yaxis_range (fig_layout (plot_gas_water_prod td prod_df pw)) =
        Some (Num 0, Num (Max (set (prod_series Gas_E3M3 prod_df pw) \<union> set (prod_series Water_M3 prod_df pw)))))"
  using water_inj_prod_ranges [of td prod_df inj_df pw iw]
    oil_inj_prod_ranges [of td prod_df inj_df pw iw]
    gas_inj_prod_ranges [of td prod_df inj_df pw iw]
    oil_water_prod_ranges [of td prod_df pw]
    gas_water_prod_ranges [of td prod_df pw]
  by blast

text \<open>
  Well A of the example: water 4 and 7, oil 10 and 20, gas 1, injected water 30.
  Well C: oil 5 and no water value.
\<close>

theorem shared_axis_range_witness:
  "layout_yaxis_range (fig_layout (plot_water_inj_prod ex_to_datetime ex_prod ex_inj [''A''] [''A''])) =
     Some (Num 0, Num 30) \<and>
   layout_yaxis2_range (fig_layout (plot_water_inj_prod ex_to_datetime ex_prod ex_inj [''A''] [''A''])) =
     Some (Num 0, Num 30) \<and>
   layout_yaxis_range (fig_layout (plot_gas_water_prod ex_to_datetime ex_prod [''A''])) =
     Some (Num 0, Num 7) \<and>
   layout_yaxis_range (fig_layout (plot_oil_water_prod ex_to_datetime ex_prod [''C''])) =
     Some (Num 0, Num 5)"
proof -
  note t = shared_axis_range [of ex_to_datetime ex_prod ex_inj "[''A'']" "[''A'']"]
  note t' = shared_axis_range [of ex_to_datetime ex_prod ex_inj "[''C'']" "[''A'']"]
  have w: "prod_series Water_M3 ex_prod [''A''] = [4, 7]"
    by (simp add: prod_series_def ex_prod_def)
  have o: "prod_series Oil_M3 ex_prod [''A''] = [10, 20]"
    by (simp add: prod_series_def ex_prod_def)
  have g: "prod_series Gas_E3M3 ex_prod [''A''] = [1]"
    by (simp add: prod_series_def ex_prod_def)
  have i: "inj_series ex_inj [''A''] = [30]"
    by (simp add: inj_series_def ex_inj_def)
  have w': "prod_series Water_M3 ex_prod [''C''] = []"
    by (simp add: prod_series_def ex_prod_def)
  have o': "prod_series Oil_M3 ex_prod [''C''] = [5]"
    by (simp add: prod_series_def ex_prod_def)
  have g': "prod_series Gas_E3M3 ex_prod [''C''] = [2]"
    by (simp add: prod_series_def ex_prod_def)
  from t have "layout_yaxis_range (fig_layout (plot_water_inj_prod ex_to_datetime ex_prod ex_inj [''A''] [''A''])) =
     Some (Num 0, Num 30) \<and>
   layout_yaxis2_range (fig_layout (plot_water_inj_prod ex_to_datetime ex_prod ex_inj [''A''] [''A''])) =
     Some (Num 0, Num 30) \<and>
   layout_yaxis_range (fig_layout (plot_gas_water_prod ex_to_datetime ex_prod [''A''])) =
     Some (Num 0, Num 7)"
    unfolding w o g i by auto
  moreover from t' have "layout_yaxis_range (fig_layout (plot_oil_water_prod ex_to_datetime ex_prod [''C''])) =
     Some (Num 0, Num 5)"
    unfolding w' o' g' i by auto
  ultimately show ?thesis
    by blast
qed

end
